theory Spec2Isabelle
  imports Main "HOL-Library.Multiset"
begin

section \<open>Strings and whitespace\<close>

text \<open>
  A Python \<open>str\<close> is a sequence of Unicode code points; a code point is modelled as
  a natural number. \<open>py\<close> reads an ASCII literal as such a sequence.
\<close>

type_synonym pystr = "nat list"

definition py :: "string \<Rightarrow> pystr" where
  "py s = map of_char s"

text \<open>
  The class \<open>\s\<close> of \<open>re\<close> on \<open>str\<close> patterns and the characters removed by
  \<open>str.strip()\<close> are the same set, the code points for which CPython's
  \<open>Py_UNICODE_ISSPACE\<close> holds: U+0009..U+000D, U+001C..U+001F, U+0020, U+0085,
  U+00A0, U+1680, U+2000..U+200A, U+2028, U+2029, U+202F, U+205F, U+3000.
\<close>

definition is_space :: "nat \<Rightarrow> bool" where
  "is_space c \<longleftrightarrow>
     (9 \<le> c \<and> c \<le> 13) \<or> (28 \<le> c \<and> c \<le> 32) \<or> c = 133 \<or> c = 160 \<or> c = 5760 \<or>
     (8192 \<le> c \<and> c \<le> 8202) \<or> c = 8232 \<or> c = 8233 \<or> c = 8239 \<or> c = 8287 \<or>
     c = 12288"

text \<open>
  \<open>re.sub(r"\s+", " ", raw)\<close>: scanning from the left, a character that is not
  whitespace is copied; at a whitespace character the greedy match \<open>\s+\<close> takes the
  whole run, which is replaced by one space (code point 32).
\<close>

function re_sub_ws :: "pystr \<Rightarrow> pystr" where
  "re_sub_ws [] = []"
| "re_sub_ws (c # cs) =
     (if is_space c then 32 # re_sub_ws (dropWhile is_space cs) else c # re_sub_ws cs)"
  by pat_completeness auto
termination
  by (relation "measure length") (auto simp: length_dropWhile_le less_Suc_eq_le)

text \<open>\<open>str.strip()\<close>: whitespace is removed from both ends.\<close>

definition strip :: "pystr \<Rightarrow> pystr" where
  "strip s = rev (dropWhile is_space (rev (dropWhile is_space s)))"

definition compress_content :: "pystr \<Rightarrow> pystr" where
  "compress_content raw = strip (re_sub_ws raw)"

text \<open>Two whitespace characters next to each other somewhere in a string.\<close>

fun adjacent_ws :: "pystr \<Rightarrow> bool" where
  "adjacent_ws (a # b # cs) = ((is_space a \<and> is_space b) \<or> adjacent_ws (b # cs))"
| "adjacent_ws [a] = False"
| "adjacent_ws [] = False"

text \<open>\<open>str(n)\<close> for a length: the decimal digits of a natural number.\<close>

fun str_nat :: "nat \<Rightarrow> pystr" where
  "str_nat n = (if n < 10 then [48 + n] else str_nat (n div 10) @ [48 + n mod 10])"

section \<open>Exceptions\<close>

text \<open>
  The exceptions the handlers can meet: \<open>OverflowError\<close> from \<open>datetime\<close>
  arithmetic that leaves the representable range, and a database error raised by a
  round trip to the store, carrying the text \<open>str(exc)\<close> of its cause.
\<close>

datatype exn = OverflowError | DBAPIError pystr

fun str_exn :: "exn \<Rightarrow> pystr" where
  "str_exn OverflowError = py ''date value out of range''"
| "str_exn (DBAPIError cause) = cause"

datatype http_exception = HTTPException nat pystr

section \<open>Timestamps\<close>

text \<open>
  A \<open>datetime\<close> has microsecond resolution and ranges from 0001-01-01T00:00:00 to
  9999-12-31T23:59:59.999999. \<open>micros\<close> holds its date and time fields as the number
  of microseconds since 0001-01-01T00:00:00; \<open>tzinfo\<close> is \<open>None\<close> for a naive value
  and \<open>Some off\<close> for an aware one whose \<open>utcoffset()\<close> is \<open>off\<close> microseconds.
\<close>

record datetime =
  micros :: int
  tzinfo :: "int option"

definition MAX_MICROS :: int where
  "MAX_MICROS = 315537897599999999"

definition representable :: "int \<Rightarrow> bool" where
  "representable m \<longleftrightarrow> 0 \<le> m \<and> m \<le> MAX_MICROS"

text \<open>
  \<open>dt + delta\<close> for a \<open>timedelta\<close> of \<open>d\<close> microseconds: the fields move, the
  \<open>tzinfo\<close> stays, and a result outside the range raises \<open>OverflowError\<close>.
\<close>

definition add_timedelta :: "datetime \<Rightarrow> int \<Rightarrow> exn + datetime" where
  "add_timedelta dt d =
     (let m = micros dt + d
      in if representable m then Inr (dt\<lparr>micros := m\<rparr>) else Inl OverflowError)"

definition timedelta_seconds :: "int \<Rightarrow> int" where
  "timedelta_seconds n = n * 1000000"

text \<open>
  \<open>normalize_timestamp\<close>: a naive value is returned as it is; for an aware one
  \<open>astimezone(timezone.utc)\<close> subtracts the offset (raising \<open>OverflowError\<close> when the
  UTC fields leave the range) and \<open>replace(tzinfo=None)\<close> drops the time zone.
\<close>

definition normalize_timestamp :: "datetime \<Rightarrow> exn + datetime" where
  "normalize_timestamp dt =
     (case tzinfo dt of
        None \<Rightarrow> Inr dt
      | Some off \<Rightarrow>
          (case add_timedelta dt (- off) of
             Inl e \<Rightarrow> Inl e
           | Inr utc \<Rightarrow> Inr (utc\<lparr>tzinfo := None\<rparr>)))"

section \<open>Rows, requests and responses\<close>

text \<open>\<open>TrackedFile\<close>: a row of the table \<open>tracked_files\<close>.\<close>

record tracked_file =
  row_id :: int
  fileName :: pystr
  filePath :: pystr
  key :: pystr
  fullContent :: pystr
  timestamp :: datetime
  created_at :: datetime

text \<open>
  A \<open>TrackedFile\<close> object as the handler builds it: \<open>id\<close> and \<open>created_at\<close> are
  assigned only when the object is flushed to the store.
\<close>

record new_file =
  new_fileName :: pystr
  new_filePath :: pystr
  new_key :: pystr
  new_fullContent :: pystr
  new_timestamp :: datetime

text \<open>\<open>FileCreate\<close>, the validated request body.\<close>

record file_create =
  req_fileName :: pystr
  req_filePath :: pystr
  req_fullContent :: pystr
  req_timestamp :: datetime

text \<open>\<open>FileResponse\<close>: the fields of a row that are sent back; the key is not among them.\<close>

record file_response =
  resp_id :: int
  resp_fileName :: pystr
  resp_filePath :: pystr
  resp_fullContent :: pystr
  resp_timestamp :: datetime
  resp_created_at :: datetime

definition model_validate :: "tracked_file \<Rightarrow> file_response" where
  "model_validate row =
     \<lparr>resp_id = row_id row, resp_fileName = fileName row, resp_filePath = filePath row,
      resp_fullContent = fullContent row, resp_timestamp = timestamp row,
      resp_created_at = created_at row\<rparr>"

datatype json_response = JSONResponse nat pystr file_response

section \<open>The store and the session\<close>

text \<open>
  The relational store is an external collaborator. Its state is the list of committed
  rows, in the order in which the engine scans them, and the counter of the
  auto-increment primary key. It keeps every value as it was written. A session holds
  the store it is bound to and the objects added to it that are not flushed yet.
\<close>

record store =
  table :: "tracked_file list"
  auto_increment :: int

record session =
  committed :: store
  pending :: "new_file list"

text \<open>
  What the world outside the program decides during one request: the reading of
  \<open>datetime.utcnow()\<close> taken as the default of \<open>created_at\<close>, and for each round trip
  to the store whether it fails (\<open>Some cause\<close>) or is answered (\<open>None\<close>).
\<close>

datatype db_op = Query | Commit | Refresh

record env =
  utcnow :: datetime
  fault :: "db_op \<Rightarrow> pystr option"

text \<open>
  Modelled from the spec: the comparison the store uses for string columns (the collation
  of the table) is not defined in the source; the spec states exact, case-sensitive
  string equality.
\<close>

definition store_eq :: "pystr \<Rightarrow> pystr \<Rightarrow> bool" where
  "store_eq a b \<longleftrightarrow> a = b"

text \<open>\<open>column.between(lo, hi)\<close>: SQL \<open>BETWEEN\<close>, inclusive at both ends.\<close>

definition between :: "datetime \<Rightarrow> datetime \<Rightarrow> datetime \<Rightarrow> bool" where
  "between t lo hi \<longleftrightarrow> micros lo \<le> micros t \<and> micros t \<le> micros hi"

text \<open>
  \<open>order_by(column.desc())\<close>: the rows sorted by the column, largest first. SQL leaves
  the order of rows with equal values open; the model keeps the scan order for them, and
  the theorems below hold for every scan order.
\<close>

definition order_by_desc :: "('a \<Rightarrow> int) \<Rightarrow> 'a list \<Rightarrow> 'a list" where
  "order_by_desc f rows = sort_key (\<lambda>r. - f r) rows"

text \<open>\<open>.first()\<close>: the first row of the result, or \<open>None\<close>.\<close>

definition first :: "'a list \<Rightarrow> 'a option" where
  "first rows = (case rows of [] \<Rightarrow> None | r # _ \<Rightarrow> Some r)"

text \<open>\<open>get_db\<close>: a new session for the request, closed when the request ends.\<close>

definition SessionLocal :: "store \<Rightarrow> session" where
  "SessionLocal st = \<lparr>committed = st, pending = []\<rparr>"

definition db_close :: "session \<Rightarrow> store" where
  "db_close db = committed db"

definition db_add :: "session \<Rightarrow> new_file \<Rightarrow> session" where
  "db_add db obj = db\<lparr>pending := pending db @ [obj]\<rparr>"

text \<open>
  The \<open>INSERT\<close> of one object: the store assigns the primary key, the column default
  gives \<open>created_at\<close>.
\<close>

definition insert_row :: "env \<Rightarrow> store \<Rightarrow> new_file \<Rightarrow> tracked_file \<times> store" where
  "insert_row e st obj =
     (let row = \<lparr>row_id = auto_increment st, fileName = new_fileName obj,
                 filePath = new_filePath obj, key = new_key obj,
                 fullContent = new_fullContent obj, timestamp = new_timestamp obj,
                 created_at = utcnow e\<rparr>
      in (row, st\<lparr>table := table st @ [row], auto_increment := auto_increment st + 1\<rparr>))"

fun flush :: "env \<Rightarrow> store \<Rightarrow> new_file list \<Rightarrow> tracked_file list \<times> store" where
  "flush e st [] = ([], st)"
| "flush e st (obj # objs) =
     (case insert_row e st obj of
        (row, st1) \<Rightarrow> (case flush e st1 objs of (rows, st2) \<Rightarrow> (row # rows, st2)))"

text \<open>
  \<open>db.commit()\<close>: the pending objects are flushed in the order in which they were added
  and the transaction is committed; when the round trip fails nothing is committed and
  the session is left as it was, for \<open>rollback\<close> to clean up. The rows written are
  returned, as the objects now carry them.
\<close>

definition db_commit :: "env \<Rightarrow> session \<Rightarrow> exn + (tracked_file list \<times> session)" where
  "db_commit e db =
     (case fault e Commit of
        Some cause \<Rightarrow> Inl (DBAPIError cause)
      | None \<Rightarrow>
          (case flush e (committed db) (pending db) of
             (rows, st) \<Rightarrow> Inr (rows, \<lparr>committed = st, pending = []\<rparr>)))"

text \<open>\<open>db.rollback()\<close>: what is not committed is discarded.\<close>

definition db_rollback :: "session \<Rightarrow> session" where
  "db_rollback db = db\<lparr>pending := []\<rparr>"

text \<open>
  \<open>db.refresh(obj)\<close>: the row of the object is read again by its primary key; the
  store answers with the row as it was written, or the round trip fails.
\<close>

definition db_refresh :: "env \<Rightarrow> session \<Rightarrow> tracked_file \<Rightarrow> exn + tracked_file" where
  "db_refresh e db row =
     (case fault e Refresh of Some cause \<Rightarrow> Inl (DBAPIError cause) | None \<Rightarrow> Inr row)"

section \<open>The handlers\<close>

definition require_api_key :: "pystr option \<Rightarrow> http_exception + pystr" where
  "require_api_key x_api_key =
     (case x_api_key of
        None \<Rightarrow> Inl (HTTPException 401 (py ''Missing x-api-key header''))
      | Some k \<Rightarrow>
          if k = [] then Inl (HTTPException 401 (py ''Missing x-api-key header''))
          else Inr k)"

text \<open>
  The duplicate lookup of \<open>create_tracked_file\<close>: the window of five seconds on either
  side of the normalized timestamp, then the query for the rows of the same file name
  and path inside it, latest timestamp first, of which the first is taken.
\<close>

definition find_duplicate ::
  "env \<Rightarrow> session \<Rightarrow> pystr \<Rightarrow> pystr \<Rightarrow> datetime \<Rightarrow> exn + tracked_file option" where
  "find_duplicate e db name path normalized_ts =
     (case add_timedelta normalized_ts (- timedelta_seconds 5) of
        Inl exc \<Rightarrow> Inl exc
      | Inr window_start \<Rightarrow>
     (case add_timedelta normalized_ts (timedelta_seconds 5) of
        Inl exc \<Rightarrow> Inl exc
      | Inr window_end \<Rightarrow>
     (case fault e Query of
        Some cause \<Rightarrow> Inl (DBAPIError cause)
      | None \<Rightarrow>
          Inr (first (order_by_desc (\<lambda>r. micros (timestamp r))
                 (filter (\<lambda>r. store_eq (fileName r) name \<and> store_eq (filePath r) path \<and>
                               between (timestamp r) window_start window_end)
                    (table (committed db))))))))"

text \<open>
  The body of the \<open>try\<close> block of \<open>create_tracked_file\<close>: the exception that leaves it,
  or the response, with the session as it is at that point. The object of the call is
  the one added last, so its row is the last of the rows that the commit writes. The
  logging calls, and the difference of the two naive timestamps computed for them, have
  no effect on the result and are left out.
\<close>

definition try_create ::
  "env \<Rightarrow> file_create \<Rightarrow> session \<Rightarrow> pystr \<Rightarrow> (exn + json_response) \<times> session" where
  "try_create e payload db api_key =
     (let compressed_content = compress_content (req_fullContent payload) in
      case normalize_timestamp (req_timestamp payload) of
        Inl exc \<Rightarrow> (Inl exc, db)
      | Inr normalized_ts \<Rightarrow>
     (case find_duplicate e db (req_fileName payload) (req_filePath payload) normalized_ts of
        Inl exc \<Rightarrow> (Inl exc, db)
      | Inr (Some existing) \<Rightarrow>
          (Inr (JSONResponse 200 (py ''File snapshot already stored'') (model_validate existing)),
           db)
      | Inr None \<Rightarrow>
          (let tracked_file =
                 \<lparr>new_fileName = req_fileName payload, new_filePath = req_filePath payload,
                  new_key = api_key, new_fullContent = compressed_content,
                  new_timestamp = normalized_ts\<rparr>;
               db1 = db_add db tracked_file
           in case db_commit e db1 of
                Inl exc \<Rightarrow> (Inl exc, db1)
              | Inr (rows, db2) \<Rightarrow>
                  (case db_refresh e db2 (last rows) of
                     Inl exc \<Rightarrow> (Inl exc, db2)
                   | Inr row \<Rightarrow>
                       (Inr (JSONResponse 201 (py ''File snapshot created'') (model_validate row)),
                        db2)))))"

text \<open>
  \<open>create_tracked_file\<close>: the \<open>try\<close> block, and the handler of every exception, which
  rolls the session back and raises the HTTP error 500.
\<close>

definition create_tracked_file ::
  "env \<Rightarrow> file_create \<Rightarrow> session \<Rightarrow> pystr \<Rightarrow> (http_exception + json_response) \<times> session" where
  "create_tracked_file e payload db api_key =
     (case try_create e payload db api_key of
        (Inr response, db') \<Rightarrow> (Inr response, db')
      | (Inl exc, db') \<Rightarrow>
          (Inl (HTTPException 500 (py ''Failed to save file: '' @ str_exn exc)),
           db_rollback db'))"

text \<open>
  \<open>list_tracked_files\<close> has no handler: an exception of the query leaves the function.
\<close>

definition list_tracked_files ::
  "env \<Rightarrow> session \<Rightarrow> pystr \<Rightarrow> exn + (pystr \<times> file_response list)" where
  "list_tracked_files e db api_key =
     (case fault e Query of
        Some cause \<Rightarrow> Inl (DBAPIError cause)
      | None \<Rightarrow>
          (let rows = order_by_desc (\<lambda>r. micros (created_at r))
                        (filter (\<lambda>r. store_eq (key r) api_key) (table (committed db)));
               data = map model_validate rows
           in Inr (str_nat (length data) @ py '' file snapshots found'', data)))"

subsection \<open>The endpoints with their dependencies\<close>

text \<open>
  \<open>POST /api/v1/files\<close> and \<open>GET /api/v1/files\<close>: \<open>get_db\<close> opens the session,
  \<open>require_api_key\<close> reads the header, the handler runs, and the session is closed on
  every path. An exception that no handler catches is answered by the framework.
\<close>

datatype 'a outcome = Raised http_exception | Unhandled exn | Returned 'a

definition post_files ::
  "env \<Rightarrow> pystr option \<Rightarrow> file_create \<Rightarrow> store \<Rightarrow> json_response outcome \<times> store" where
  "post_files e x_api_key payload st =
     (let db = SessionLocal st in
      case require_api_key x_api_key of
        Inl exc \<Rightarrow> (Raised exc, db_close db)
      | Inr api_key \<Rightarrow>
          (case create_tracked_file e payload db api_key of
             (Inl exc, db') \<Rightarrow> (Raised exc, db_close db')
           | (Inr response, db') \<Rightarrow> (Returned response, db_close db')))"

definition get_files ::
  "env \<Rightarrow> pystr option \<Rightarrow> store \<Rightarrow> (pystr \<times> file_response list) outcome \<times> store" where
  "get_files e x_api_key st =
     (let db = SessionLocal st in
      case require_api_key x_api_key of
        Inl exc \<Rightarrow> (Raised exc, db_close db)
      | Inr api_key \<Rightarrow>
          (case list_tracked_files e db api_key of
             Inl exc \<Rightarrow> (Unhandled exc, db_close db)
           | Inr body \<Rightarrow> (Returned body, db_close db)))"

text \<open>A sequence of requests served one after the other, from a given store.\<close>

datatype request = Post env "pystr option" file_create | Get env "pystr option"

fun serve :: "request \<Rightarrow> store \<Rightarrow> store" where
  "serve (Post e x_api_key payload) st = snd (post_files e x_api_key payload st)"
| "serve (Get e x_api_key) st = snd (get_files e x_api_key st)"

fun serve_all :: "request list \<Rightarrow> store \<Rightarrow> store" where
  "serve_all [] st = st"
| "serve_all (r # rs) st = serve_all rs (serve r st)"

definition empty_store :: store where
  "empty_store = \<lparr>table = [], auto_increment = 1\<rparr>"

section \<open>Notions used to state the properties\<close>

text \<open>
  A stored row matches a candidate as the specification words it: the same file name and
  the same path, and a timestamp in the closed interval of five seconds on either side
  of the candidate's normalized timestamp.
\<close>

definition matches_candidate :: "pystr \<Rightarrow> pystr \<Rightarrow> datetime \<Rightarrow> tracked_file \<Rightarrow> bool" where
  "matches_candidate name path ts r \<longleftrightarrow>
     fileName r = name \<and> filePath r = path \<and>
     micros ts - 5000000 \<le> micros (timestamp r) \<and> micros (timestamp r) \<le> micros ts + 5000000"

text \<open>
  The window of a normalized timestamp can be computed: both of its ends are
  representable.
\<close>

definition window_representable :: "datetime \<Rightarrow> bool" where
  "window_representable ts \<longleftrightarrow>
     representable (micros ts - 5000000) \<and> representable (micros ts + 5000000)"

text \<open>
  The row that a request writes into a store when it is not a duplicate: the next
  primary key, the fields of the request with the content compressed and the timestamp
  normalized to \<open>ts\<close>, the key of the caller, and the clock reading.
\<close>

definition inserted_row :: "env \<Rightarrow> store \<Rightarrow> file_create \<Rightarrow> pystr \<Rightarrow> datetime \<Rightarrow> tracked_file" where
  "inserted_row e st payload api_key ts =
     \<lparr>row_id = auto_increment st, fileName = req_fileName payload,
      filePath = req_filePath payload, key = api_key,
      fullContent = compress_content (req_fullContent payload), timestamp = ts,
      created_at = utcnow e\<rparr>"

definition store_with :: "store \<Rightarrow> tracked_file \<Rightarrow> store" where
  "store_with st row = st\<lparr>table := table st @ [row], auto_increment := auto_increment st + 1\<rparr>"

text \<open>
  A row holds what a request with body \<open>p\<close> and key \<open>k\<close> asks to store: the file
  name, the path and the key as sent, the compressed content, and the normalized
  timestamp.
\<close>

definition written_by :: "file_create \<Rightarrow> pystr \<Rightarrow> tracked_file \<Rightarrow> bool" where
  "written_by p k r \<longleftrightarrow>
     fileName r = req_fileName p \<and> filePath r = req_filePath p \<and> key r = k \<and>
     fullContent r = compress_content (req_fullContent p) \<and>
     normalize_timestamp (req_timestamp p) = Inr (timestamp r)"

text \<open>Values for the examples: a naive timestamp, and an environment in which every
  round trip to the store is answered.\<close>

definition naive :: "int \<Rightarrow> datetime" where
  "naive m = \<lparr>micros = m, tzinfo = None\<rparr>"

definition answering :: "int \<Rightarrow> env" where
  "answering now = \<lparr>utcnow = naive now, fault = (\<lambda>op. None)\<rparr>"

definition failing :: "int \<Rightarrow> db_op \<Rightarrow> pystr \<Rightarrow> env" where
  "failing now op cause =
     \<lparr>utcnow = naive now, fault = (\<lambda>op'. if op' = op then Some cause else None)\<rparr>"

definition stored_row :: "int \<Rightarrow> pystr \<Rightarrow> pystr \<Rightarrow> pystr \<Rightarrow> pystr \<Rightarrow> int \<Rightarrow> int \<Rightarrow> tracked_file" where
  "stored_row i name path k content ts created =
     \<lparr>row_id = i, fileName = name, filePath = path, key = k, fullContent = content,
      timestamp = naive ts, created_at = naive created\<rparr>"

definition request_body :: "pystr \<Rightarrow> pystr \<Rightarrow> pystr \<Rightarrow> datetime \<Rightarrow> file_create" where
  "request_body name path content ts =
     \<lparr>req_fileName = name, req_filePath = path, req_fullContent = content,
      req_timestamp = ts\<rparr>"

section \<open>Whitespace compression\<close>

lemma is_space_32: "is_space 32"
  by (simp add: is_space_def)

lemma adjacent_ws_Cons:
  "adjacent_ws (a # s) \<longleftrightarrow> (s \<noteq> [] \<and> is_space a \<and> is_space (hd s)) \<or> adjacent_ws s"
  by (cases s) auto

lemma adjacent_ws_append:
  "adjacent_ws (xs @ ys) \<longleftrightarrow>
     adjacent_ws xs \<or> adjacent_ws ys \<or>
     (xs \<noteq> [] \<and> ys \<noteq> [] \<and> is_space (last xs) \<and> is_space (hd ys))"
proof (induction xs)
  case Nil
  show ?case by simp
next
  case (Cons a xs)
  show ?case
    unfolding append_Cons adjacent_ws_Cons [of a "xs @ ys"] adjacent_ws_Cons [of a xs] Cons.IH
    by (cases xs) auto
qed

lemma hd_re_sub_ws:
  "s \<noteq> [] \<Longrightarrow> is_space (hd (re_sub_ws s)) \<longleftrightarrow> is_space (hd s)"
  by (cases s) (auto simp: is_space_32)

lemma re_sub_ws_Nil_iff: "re_sub_ws s = [] \<longleftrightarrow> s = []"
  by (cases s) auto

lemma no_adjacent_re_sub_ws: "\<not> adjacent_ws (re_sub_ws s)"
proof (induction s rule: re_sub_ws.induct)
  case 1
  show ?case by simp
next
  case (2 c cs)
  show ?case
  proof (cases "is_space c")
    case True
    have "dropWhile is_space cs \<noteq> [] \<Longrightarrow> \<not> is_space (hd (re_sub_ws (dropWhile is_space cs)))"
      using hd_dropWhile [of is_space cs] by (simp add: hd_re_sub_ws)
    with True 2 show ?thesis
      by (auto simp: adjacent_ws_Cons re_sub_ws_Nil_iff)
  next
    case False
    with 2 show ?thesis
      by (simp add: adjacent_ws_Cons)
  qed
qed

lemma space_re_sub_ws: "c \<in> set (re_sub_ws s) \<Longrightarrow> is_space c \<Longrightarrow> c = 32"
  by (induction s rule: re_sub_ws.induct) (auto split: if_splits)

lemma re_sub_ws_fixed:
  "\<not> adjacent_ws s \<Longrightarrow> (\<And>c. c \<in> set s \<Longrightarrow> is_space c \<Longrightarrow> c = 32) \<Longrightarrow> re_sub_ws s = s"
proof (induction s rule: re_sub_ws.induct)
  case 1
  show ?case by simp
next
  case (2 c cs)
  have tl_ok: "\<not> adjacent_ws cs"
    using "2.prems"(1) by (simp add: adjacent_ws_Cons)
  show ?case
  proof (cases "is_space c")
    case True
    then have c: "c = 32" using "2.prems"(2) by simp
    have "cs = [] \<or> \<not> is_space (hd cs)"
      using "2.prems"(1) True by (auto simp: adjacent_ws_Cons)
    then have d: "dropWhile is_space cs = cs"
      by (simp add: dropWhile_eq_self_iff)
    have "re_sub_ws (dropWhile is_space cs) = cs"
      using "2.IH"(1) [OF True] tl_ok "2.prems"(2) d by simp
    with True c show ?thesis by simp
  next
    case False
    have "re_sub_ws cs = cs"
      using "2.IH"(2) [OF False] tl_ok "2.prems"(2) by simp
    with False show ?thesis by simp
  qed
qed

lemma strip_prefix:
  "dropWhile is_space s = strip s @ rev (takeWhile is_space (rev (dropWhile is_space s)))"
  unfolding strip_def by (subst rev_append [symmetric]) simp

lemma strip_decomp:
  "s = takeWhile is_space s @ strip s @ rev (takeWhile is_space (rev (dropWhile is_space s)))"
proof -
  have "s = takeWhile is_space s @ dropWhile is_space s" by simp
  then show ?thesis using strip_prefix [of s] by simp
qed

lemma no_adjacent_strip: "\<not> adjacent_ws s \<Longrightarrow> \<not> adjacent_ws (strip s)"
proof -
  assume a: "\<not> adjacent_ws s"
  obtain p q where "s = p @ strip s @ q" using strip_decomp by blast
  then have "adjacent_ws s = adjacent_ws (p @ strip s @ q)" by simp
  with a show ?thesis by (simp add: adjacent_ws_append [of p] adjacent_ws_append [of "strip s"])
qed

lemma set_strip: "c \<in> set (strip s) \<Longrightarrow> c \<in> set s"
proof -
  assume "c \<in> set (strip s)"
  then have "c \<in> set (dropWhile is_space (rev (dropWhile is_space s)))"
    by (simp add: strip_def)
  then have "c \<in> set (rev (dropWhile is_space s))" by (rule set_dropWhileD)
  then have "c \<in> set (dropWhile is_space s)" by simp
  then show "c \<in> set s" by (rule set_dropWhileD)
qed

lemma last_strip: "strip s \<noteq> [] \<Longrightarrow> \<not> is_space (last (strip s))"
  unfolding strip_def using hd_dropWhile [of is_space "rev (dropWhile is_space s)"]
  by (simp add: last_rev)

lemma hd_strip: "strip s \<noteq> [] \<Longrightarrow> \<not> is_space (hd (strip s))"
proof -
  assume ne: "strip s \<noteq> []"
  obtain v where t: "dropWhile is_space s = strip s @ v" using strip_prefix by blast
  have "dropWhile is_space s \<noteq> []" unfolding t using ne by simp
  then have "\<not> is_space (hd (dropWhile is_space s))" by (rule hd_dropWhile)
  moreover have "hd (dropWhile is_space s) = hd (strip s)" unfolding t using ne by simp
  ultimately show ?thesis by simp
qed

lemma strip_fixed:
  "s = [] \<or> (\<not> is_space (hd s) \<and> \<not> is_space (last s)) \<Longrightarrow> strip s = s"
proof (cases "s = []")
  case True
  then show ?thesis by (simp add: strip_def)
next
  case False
  assume "s = [] \<or> (\<not> is_space (hd s) \<and> \<not> is_space (last s))"
  with False have h: "\<not> is_space (hd s)" and l: "\<not> is_space (last s)" by auto
  have 1: "dropWhile is_space s = s" using h by (simp add: dropWhile_eq_self_iff)
  have "hd (rev s) = last s" using False by (simp add: hd_rev)
  then have 2: "dropWhile is_space (rev s) = rev s" using l by (simp add: dropWhile_eq_self_iff)
  show ?thesis by (simp add: strip_def 1 2)
qed

lemma compress_content_idem: "compress_content (compress_content s) = compress_content s"
proof -
  let ?r = "compress_content s"
  have na: "\<not> adjacent_ws ?r"
    unfolding compress_content_def by (rule no_adjacent_strip) (rule no_adjacent_re_sub_ws)
  have sp: "\<And>c. c \<in> set ?r \<Longrightarrow> is_space c \<Longrightarrow> c = 32"
    unfolding compress_content_def by (blast dest: set_strip space_re_sub_ws)
  have "re_sub_ws ?r = ?r" using na sp by (rule re_sub_ws_fixed)
  moreover have "strip ?r = ?r"
    unfolding compress_content_def
    by (rule strip_fixed) (use hd_strip last_strip in blast)
  ultimately show ?thesis by (simp add: compress_content_def [of ?r])
qed

lemma re_sub_ws_no_ws: "(\<And>c. c \<in> set xs \<Longrightarrow> \<not> is_space c) \<Longrightarrow> re_sub_ws xs = xs"
  by (induction xs) auto

lemma re_sub_ws_run:
  "w \<noteq> [] \<Longrightarrow> (\<And>c. c \<in> set w \<Longrightarrow> is_space c) \<Longrightarrow> ys = [] \<or> \<not> is_space (hd ys) \<Longrightarrow>
   re_sub_ws (w @ ys) = 32 # re_sub_ws ys"
proof -
  assume w: "w \<noteq> []" and ws: "\<And>c. c \<in> set w \<Longrightarrow> is_space c" and ys: "ys = [] \<or> \<not> is_space (hd ys)"
  obtain a w' where a: "w = a # w'" using w by (cases w) auto
  have "dropWhile is_space (w' @ ys) = dropWhile is_space ys"
    using ws a by (simp add: dropWhile_append)
  also have "\<dots> = ys" using ys by (simp add: dropWhile_eq_self_iff)
  finally show ?thesis using ws a by simp
qed

lemma re_sub_ws_append:
  "xs = [] \<or> \<not> is_space (last xs) \<Longrightarrow> re_sub_ws (xs @ zs) = re_sub_ws xs @ re_sub_ws zs"
proof (induction xs rule: re_sub_ws.induct)
  case 1
  show ?case by simp
next
  case (2 c cs)
  show ?case
  proof (cases "is_space c")
    case True
    from "2.prems" True have ne: "cs \<noteq> []"
      by (cases cs) simp_all
    with "2.prems" have l: "\<not> is_space (last cs)" by simp
    from ne l have ex: "\<exists>x\<in>set cs. \<not> is_space x" using last_in_set by blast
    then obtain x where x: "x \<in> set cs" "\<not> is_space x" by blast
    then have d: "dropWhile is_space (cs @ zs) = dropWhile is_space cs @ zs"
      by (rule dropWhile_append1)
    from x have "last (dropWhile is_space cs) = last cs"
      by (rule dropWhile_last)
    with l have "dropWhile is_space cs = [] \<or> \<not> is_space (last (dropWhile is_space cs))"
      by simp
    then have "re_sub_ws (dropWhile is_space cs @ zs) =
        re_sub_ws (dropWhile is_space cs) @ re_sub_ws zs"
      by (rule "2.IH"(1) [OF True])
    then show ?thesis using True by (simp add: d)
  next
    case False
    have "cs = [] \<or> \<not> is_space (last cs)" using "2.prems" by (cases cs) simp_all
    then have "re_sub_ws (cs @ zs) = re_sub_ws cs @ re_sub_ws zs"
      by (rule "2.IH"(2) [OF False])
    with False show ?thesis by simp
  qed
qed

lemma adjacent_ws_iff_nth:
  "adjacent_ws s \<longleftrightarrow> (\<exists>i. Suc i < length s \<and> is_space (s ! i) \<and> is_space (s ! Suc i))"
proof (induction s)
  case Nil
  show ?case by simp
next
  case (Cons a s)
  show ?case
  proof
    assume "adjacent_ws (a # s)"
    then consider "s \<noteq> []" "is_space a" "is_space (hd s)" | "adjacent_ws s"
      by (auto simp: adjacent_ws_Cons)
    then show "\<exists>i. Suc i < length (a # s) \<and> is_space ((a # s) ! i) \<and> is_space ((a # s) ! Suc i)"
    proof cases
      case 1
      then have "Suc 0 < length (a # s) \<and> is_space ((a # s) ! 0) \<and> is_space ((a # s) ! Suc 0)"
        by (simp add: hd_conv_nth)
      then show ?thesis by blast
    next
      case 2
      with Cons.IH obtain i where "Suc i < length s" "is_space (s ! i)" "is_space (s ! Suc i)"
        by blast
      then have "Suc (Suc i) < length (a # s) \<and> is_space ((a # s) ! Suc i) \<and>
          is_space ((a # s) ! Suc (Suc i))"
        by simp
      then show ?thesis by blast
    qed
  next
    assume "\<exists>i. Suc i < length (a # s) \<and> is_space ((a # s) ! i) \<and> is_space ((a # s) ! Suc i)"
    then obtain i where i: "Suc i < length (a # s)" "is_space ((a # s) ! i)"
      "is_space ((a # s) ! Suc i)"
      by blast
    show "adjacent_ws (a # s)"
    proof (cases i)
      case 0
      with i show ?thesis by (simp add: adjacent_ws_Cons hd_conv_nth)
    next
      case (Suc j)
      with i have "Suc j < length s \<and> is_space (s ! j) \<and> is_space (s ! Suc j)" by simp
      then have "adjacent_ws s" using Cons.IH by blast
      then show ?thesis by (simp add: adjacent_ws_Cons)
    qed
  qed
qed

text \<open>
  C4. \<open>compress_content\<close> is idempotent; its result has no two adjacent whitespace
  characters (stated by positions as well) and neither starts nor ends with whitespace.
  It is \<open>strip\<close> after the substitution, and the substitution replaces each maximal
  run of whitespace by one space: a non-empty run \<open>w\<close> of whitespace between a text
  \<open>xs\<close> that does not end with whitespace and a text \<open>ys\<close> that does not start with
  whitespace becomes the single code point 32, and a text without whitespace is kept.
\<close>

theorem compress_content_idempotent_trimmed:
  "compress_content (compress_content s) = compress_content s \<and>
   \<not> adjacent_ws (compress_content s) \<and>
   (\<forall>i. Suc i < length (compress_content s) \<longrightarrow>
      \<not> (is_space (compress_content s ! i) \<and> is_space (compress_content s ! Suc i))) \<and>
   (compress_content s \<noteq> [] \<longrightarrow>
      \<not> is_space (hd (compress_content s)) \<and> \<not> is_space (last (compress_content s))) \<and>
   compress_content s = strip (re_sub_ws s) \<and>
   (w \<noteq> [] \<and> (\<forall>c\<in>set w. is_space c) \<and> (xs = [] \<or> \<not> is_space (last xs)) \<and>
    (ys = [] \<or> \<not> is_space (hd ys)) \<longrightarrow>
      re_sub_ws (xs @ w @ ys) = re_sub_ws xs @ 32 # re_sub_ws ys) \<and>
   ((\<forall>c\<in>set xs. \<not> is_space c) \<longrightarrow> re_sub_ws xs = xs)"
proof -
  have na: "\<not> adjacent_ws (compress_content s)"
    unfolding compress_content_def by (rule no_adjacent_strip) (rule no_adjacent_re_sub_ws)
  have nth: "\<forall>i. Suc i < length (compress_content s) \<longrightarrow>
      \<not> (is_space (compress_content s ! i) \<and> is_space (compress_content s ! Suc i))"
    using na unfolding adjacent_ws_iff_nth by blast
  have ends: "compress_content s \<noteq> [] \<longrightarrow>
      \<not> is_space (hd (compress_content s)) \<and> \<not> is_space (last (compress_content s))"
    unfolding compress_content_def using hd_strip last_strip by blast
  have run: "w \<noteq> [] \<and> (\<forall>c\<in>set w. is_space c) \<and> (xs = [] \<or> \<not> is_space (last xs)) \<and>
      (ys = [] \<or> \<not> is_space (hd ys)) \<longrightarrow>
      re_sub_ws (xs @ w @ ys) = re_sub_ws xs @ 32 # re_sub_ws ys"
  proof
    assume h: "w \<noteq> [] \<and> (\<forall>c\<in>set w. is_space c) \<and> (xs = [] \<or> \<not> is_space (last xs)) \<and>
      (ys = [] \<or> \<not> is_space (hd ys))"
    then have "re_sub_ws (xs @ w @ ys) = re_sub_ws xs @ re_sub_ws (w @ ys)"
      by (simp add: re_sub_ws_append)
    also have "re_sub_ws (w @ ys) = 32 # re_sub_ws ys"
      using h by (intro re_sub_ws_run) auto
    finally show "re_sub_ws (xs @ w @ ys) = re_sub_ws xs @ 32 # re_sub_ws ys" .
  qed
  have keep: "(\<forall>c\<in>set xs. \<not> is_space c) \<longrightarrow> re_sub_ws xs = xs"
    using re_sub_ws_no_ws by blast
  show ?thesis
    using compress_content_idem [of s] na nth ends run keep
    by (simp only: compress_content_def [of s, symmetric] simp_thms)
qed

theorem compress_content_idempotent_trimmed_witness:
  "compress_content [9, 120, 32, 32, 32, 121, 10, 10, 122, 13] = [120, 32, 121, 32, 122] \<and>
   compress_content (compress_content [9, 120, 32, 32, 32, 121, 10, 10, 122, 13]) =
     compress_content [9, 120, 32, 32, 32, 121, 10, 10, 122, 13] \<and>
   \<not> adjacent_ws (compress_content [9, 120, 32, 32, 32, 121, 10, 10, 122, 13]) \<and>
   \<not> is_space (hd (compress_content [9, 120, 32, 32, 32, 121, 10, 10, 122, 13])) \<and>
   \<not> is_space (last (compress_content [9, 120, 32, 32, 32, 121, 10, 10, 122, 13])) \<and>
   re_sub_ws ([120] @ [32, 9, 10] @ [121]) = re_sub_ws [120] @ 32 # re_sub_ws [121] \<and>
   re_sub_ws [120] = [120]"
  using compress_content_idempotent_trimmed
    [of "[9, 120, 32, 32, 32, 121, 10, 10, 122, 13]" "[32, 9, 10]" "[120]" "[121]"]
  by (simp add: compress_content_def strip_def is_space_def)

section \<open>Normalizing timestamps\<close>

lemma normalize_naive: "tzinfo dt = None \<Longrightarrow> normalize_timestamp dt = Inr dt"
  by (simp add: normalize_timestamp_def)

lemma normalize_aware:
  "tzinfo dt = Some off \<Longrightarrow> representable (micros dt - off) \<Longrightarrow>
   normalize_timestamp dt = Inr \<lparr>micros = micros dt - off, tzinfo = None\<rparr>"
  by (simp add: normalize_timestamp_def add_timedelta_def)

lemma normalize_overflow:
  "tzinfo dt = Some off \<Longrightarrow> \<not> representable (micros dt - off) \<Longrightarrow>
   normalize_timestamp dt = Inl OverflowError"
  by (simp add: normalize_timestamp_def add_timedelta_def)

lemma normalize_result_naive: "normalize_timestamp dt = Inr u \<Longrightarrow> tzinfo u = None"
  by (auto simp: normalize_timestamp_def add_timedelta_def Let_def split: option.splits if_splits)

text \<open>
  C5, as amended. A timestamp without offset is returned unchanged, so on naive input the
  function is idempotent. A timestamp with an offset whose UTC fields are representable
  is converted to them and the offset is dropped; the result is always naive and is a
  fixed point. When the UTC fields fall outside the range of \<open>datetime\<close> the
  function raises \<open>OverflowError\<close> instead of returning.
\<close>

theorem normalize_timestamp_naive_utc:
  "(tzinfo dt = None \<longrightarrow> normalize_timestamp dt = Inr dt) \<and>
   (tzinfo dt = Some off \<and> representable (micros dt - off) \<longrightarrow>
      normalize_timestamp dt = Inr \<lparr>micros = micros dt - off, tzinfo = None\<rparr>) \<and>
   (tzinfo dt = Some off \<and> \<not> representable (micros dt - off) \<longrightarrow>
      normalize_timestamp dt = Inl OverflowError) \<and>
   (normalize_timestamp dt = Inr u \<longrightarrow> tzinfo u = None \<and> normalize_timestamp u = Inr u)"
  using normalize_naive [of dt] normalize_aware [of dt off] normalize_overflow [of dt off]
    normalize_result_naive [of dt u] normalize_naive [of u]
  by blast

theorem normalize_timestamp_naive_utc_witness:
  "normalize_timestamp \<lparr>micros = 63000000000000000, tzinfo = None\<rparr> =
     Inr \<lparr>micros = 63000000000000000, tzinfo = None\<rparr> \<and>
   normalize_timestamp \<lparr>micros = 63000000000000000, tzinfo = Some 3600000000\<rparr> =
     Inr \<lparr>micros = 62999996400000000, tzinfo = None\<rparr> \<and>
   normalize_timestamp \<lparr>micros = 62999996400000000, tzinfo = None\<rparr> =
     Inr \<lparr>micros = 62999996400000000, tzinfo = None\<rparr> \<and>
   normalize_timestamp \<lparr>micros = 1000000, tzinfo = Some 3600000000\<rparr> = Inl OverflowError"
  using normalize_timestamp_naive_utc
      [of "\<lparr>micros = 63000000000000000, tzinfo = None\<rparr>" 0
          "\<lparr>micros = 63000000000000000, tzinfo = None\<rparr>"]
    normalize_timestamp_naive_utc
      [of "\<lparr>micros = 63000000000000000, tzinfo = Some 3600000000\<rparr>" 3600000000
          "\<lparr>micros = 62999996400000000, tzinfo = None\<rparr>"]
    normalize_timestamp_naive_utc
      [of "\<lparr>micros = 1000000, tzinfo = Some 3600000000\<rparr>" 3600000000
          "\<lparr>micros = 62999996400000000, tzinfo = None\<rparr>"]
  by (simp add: representable_def MAX_MICROS_def)

text \<open>
  The claim as stated fails for 0001-01-01T00:00:00+01:00: its UTC instant lies before
  the first representable \<open>datetime\<close>, and no value is returned.
\<close>

theorem normalize_timestamp_total_counterexample:
  "normalize_timestamp \<lparr>micros = 0, tzinfo = Some 3600000000\<rparr> = Inl OverflowError"
  by (simp add: normalize_timestamp_def add_timedelta_def representable_def)

section \<open>The API key\<close>

text \<open>
  C9, as amended. When the header \<open>x-api-key\<close> is absent or empty, both endpoints
  answer 401 whatever the store holds and whatever the store would answer, and leave the
  store as it is. When the header is present and not empty, the key is its value.
\<close>

theorem api_key_required:
  "(x_api_key = None \<or> x_api_key = Some [] \<longrightarrow>
      post_files e x_api_key payload st =
        (Raised (HTTPException 401 (py ''Missing x-api-key header'')), st) \<and>
      get_files e x_api_key st =
        (Raised (HTTPException 401 (py ''Missing x-api-key header'')), st)) \<and>
   (x_api_key = Some k \<and> k \<noteq> [] \<longrightarrow> require_api_key x_api_key = Inr k)"
  by (auto simp: post_files_def get_files_def require_api_key_def SessionLocal_def db_close_def)

theorem api_key_required_witness:
  "post_files \<lparr>utcnow = \<lparr>micros = 63000000000000000, tzinfo = None\<rparr>, fault = (\<lambda>op. Some [100])\<rparr>
      None
      \<lparr>req_fileName = [97], req_filePath = [47, 97], req_fullContent = [120],
       req_timestamp = \<lparr>micros = 63000000000000000, tzinfo = None\<rparr>\<rparr>
      empty_store =
     (Raised (HTTPException 401 (py ''Missing x-api-key header'')), empty_store) \<and>
   get_files \<lparr>utcnow = \<lparr>micros = 63000000000000000, tzinfo = None\<rparr>, fault = (\<lambda>op. Some [100])\<rparr>
      None empty_store =
     (Raised (HTTPException 401 (py ''Missing x-api-key header'')), empty_store) \<and>
   require_api_key (Some [75, 49]) = Inr [75, 49]"
  using api_key_required
    [of None
      "\<lparr>utcnow = \<lparr>micros = 63000000000000000, tzinfo = None\<rparr>, fault = (\<lambda>op. Some [100])\<rparr>"
      "\<lparr>req_fileName = [97], req_filePath = [47, 97], req_fullContent = [120],
        req_timestamp = \<lparr>micros = 63000000000000000, tzinfo = None\<rparr>\<rparr>"
      empty_store "[75, 49]"]
    api_key_required [of "Some [75, 49]" _ _ _ "[75, 49]"]
  by simp

text \<open>
  The claim as stated fails for a header that is present with an empty value: no key is
  extracted, the request is refused.
\<close>

theorem api_key_present_counterexample:
  "require_api_key (Some []) = Inl (HTTPException 401 (py ''Missing x-api-key header''))"
  by (simp add: require_api_key_def)

section \<open>The duplicate lookup\<close>

lemma set_order_by_desc: "set (order_by_desc f rows) = set rows"
  by (simp add: order_by_desc_def)

lemma mset_order_by_desc: "mset (order_by_desc f rows) = mset rows"
  by (simp add: order_by_desc_def)

lemma sorted_order_by_desc: "sorted_wrt (\<lambda>a b. f b \<le> f a) (order_by_desc f rows)"
proof -
  have "sorted (map (\<lambda>r. - f r) (order_by_desc f rows))"
    unfolding order_by_desc_def by (rule sorted_sort_key)
  then show ?thesis by (simp add: sorted_map)
qed

lemma first_None_iff: "first rows = None \<longleftrightarrow> rows = []"
  by (simp add: first_def split: list.splits)

lemma first_order_by_desc_None: "first (order_by_desc f rows) = None \<longleftrightarrow> rows = []"
  using set_order_by_desc [of f rows] by (auto simp: first_None_iff)

lemma first_order_by_desc_Some:
  assumes "first (order_by_desc f rows) = Some r"
  shows "r \<in> set rows" and "\<And>r'. r' \<in> set rows \<Longrightarrow> f r' \<le> f r"
proof -
  from assms obtain rest where o: "order_by_desc f rows = r # rest"
    by (auto simp: first_def split: list.splits)
  have s: "set rows = set (r # rest)" using set_order_by_desc [of f rows] o by simp
  then show "r \<in> set rows" by simp
  fix r' assume "r' \<in> set rows"
  with s have "r' = r \<or> r' \<in> set rest" by simp
  moreover have "\<forall>x\<in>set rest. f x \<le> f r"
    using sorted_order_by_desc [of f rows] o by simp
  ultimately show "f r' \<le> f r" by auto
qed

lemma insort_key_last:
  fixes g :: "'a \<Rightarrow> int"
  shows "(\<And>y. y \<in> set ys \<Longrightarrow> g y < g x) \<Longrightarrow> insort_key g x ys = ys @ [x]"
proof (induction ys)
  case Nil
  show ?case by simp
next
  case (Cons a ys)
  have "g a < g x" using Cons.prems by simp
  then have "\<not> g x \<le> g a" by simp
  moreover have "insort_key g x ys = ys @ [x]" using Cons by simp
  ultimately show ?case by simp
qed

lemma order_by_desc_increasing:
  "sorted_wrt (\<lambda>a b. f a < f b) rows \<Longrightarrow> order_by_desc f rows = rev rows"
proof (induction rows)
  case Nil
  show ?case by (simp add: order_by_desc_def)
next
  case (Cons r rows)
  then have ih: "sort_key (\<lambda>r. - f r) rows = rev rows" by (simp add: order_by_desc_def)
  have "\<And>y. y \<in> set (rev rows) \<Longrightarrow> - f y < - f r" using Cons.prems by auto
  then have "insort_key (\<lambda>r. - f r) r (rev rows) = rev rows @ [r]"
    by (rule insort_key_last)
  with ih show ?case by (simp add: order_by_desc_def)
qed

lemma window_ends:
  "window_representable ts \<Longrightarrow>
   add_timedelta ts (- timedelta_seconds 5) = Inr (ts\<lparr>micros := micros ts - 5000000\<rparr>) \<and>
   add_timedelta ts (timedelta_seconds 5) = Inr (ts\<lparr>micros := micros ts + 5000000\<rparr>)"
  by (simp add: window_representable_def add_timedelta_def timedelta_seconds_def)

lemma window_filter:
  "(store_eq (fileName r) name \<and> store_eq (filePath r) path \<and>
    between (timestamp r) (ts\<lparr>micros := micros ts - 5000000\<rparr>) (ts\<lparr>micros := micros ts + 5000000\<rparr>))
   = matches_candidate name path ts r"
  by (simp add: store_eq_def between_def matches_candidate_def)

lemma find_duplicate_answered:
  "window_representable ts \<Longrightarrow> fault e Query = None \<Longrightarrow>
   find_duplicate e db name path ts =
     Inr (first (order_by_desc (\<lambda>r. micros (timestamp r))
       (filter (matches_candidate name path ts) (table (committed db)))))"
  by (simp add: find_duplicate_def window_ends window_filter)

lemma find_duplicate_overflow:
  "\<not> window_representable ts \<Longrightarrow> find_duplicate e db name path ts = Inl OverflowError"
  by (auto simp: find_duplicate_def window_representable_def add_timedelta_def
      timedelta_seconds_def Let_def split: sum.splits if_splits)

lemma find_duplicate_fault:
  "window_representable ts \<Longrightarrow> fault e Query = Some cause \<Longrightarrow>
   find_duplicate e db name path ts = Inl (DBAPIError cause)"
  by (simp add: find_duplicate_def window_ends)

lemma find_duplicate_Some:
  assumes "find_duplicate e db name path ts = Inr (Some r)"
  shows "r \<in> set (table (committed db))" and "matches_candidate name path ts r"
    and "\<And>r'. r' \<in> set (table (committed db)) \<Longrightarrow> matches_candidate name path ts r' \<Longrightarrow>
      micros (timestamp r') \<le> micros (timestamp r)"
proof -
  have w: "window_representable ts"
    using assms find_duplicate_overflow [of ts e db name path] by auto
  have q: "fault e Query = None"
    using assms w find_duplicate_fault [of ts e _ db name path] by (cases "fault e Query") auto
  let ?m = "filter (matches_candidate name path ts) (table (committed db))"
  have f: "first (order_by_desc (\<lambda>r. micros (timestamp r)) ?m) = Some r"
    using assms find_duplicate_answered [OF w q, of db name path] by simp
  from first_order_by_desc_Some(1) [OF f] show "r \<in> set (table (committed db))"
    and "matches_candidate name path ts r" by simp_all
  fix r' assume "r' \<in> set (table (committed db))" "matches_candidate name path ts r'"
  then have "r' \<in> set ?m" by simp
  then show "micros (timestamp r') \<le> micros (timestamp r)"
    by (rule first_order_by_desc_Some(2) [OF f])
qed

lemma find_duplicate_None:
  assumes "find_duplicate e db name path ts = Inr None"
  shows "window_representable ts" and "fault e Query = None"
    and "\<And>r. r \<in> set (table (committed db)) \<Longrightarrow> \<not> matches_candidate name path ts r"
proof -
  show w: "window_representable ts"
    using assms find_duplicate_overflow [of ts e db name path] by auto
  show q: "fault e Query = None"
    using assms w find_duplicate_fault [of ts e _ db name path] by (cases "fault e Query") auto
  let ?m = "filter (matches_candidate name path ts) (table (committed db))"
  have "first (order_by_desc (\<lambda>r. micros (timestamp r)) ?m) = None"
    using assms find_duplicate_answered [OF w q, of db name path] by simp
  then have e: "?m = []" by (simp add: first_order_by_desc_None)
  fix r assume "r \<in> set (table (committed db))"
  with e show "\<not> matches_candidate name path ts r" by (auto simp: filter_empty_conv)
qed

text \<open>
  C1, as amended. When both ends of the window are representable and the store answers
  the query, the lookup returns a result: none exactly when no stored row matches the
  candidate (same file name, same path, timestamp within five seconds on either side,
  ends included), and otherwise a stored row that matches and whose timestamp is the
  latest among the matching rows. When an end of the window is not representable the
  lookup raises \<open>OverflowError\<close>.
\<close>

theorem find_duplicate_latest_in_window:
  "(window_representable ts \<and> fault e Query = None \<longrightarrow>
      (\<exists>res. find_duplicate e db name path ts = Inr res \<and>
         (res = None \<longleftrightarrow>
            (\<forall>r\<in>set (table (committed db)). \<not> matches_candidate name path ts r)) \<and>
         (\<forall>r. res = Some r \<longrightarrow>
            r \<in> set (table (committed db)) \<and> matches_candidate name path ts r \<and>
            (\<forall>r'\<in>set (table (committed db)). matches_candidate name path ts r' \<longrightarrow>
               micros (timestamp r') \<le> micros (timestamp r))))) \<and>
   (\<not> window_representable ts \<longrightarrow> find_duplicate e db name path ts = Inl OverflowError)"
proof (intro conjI impI)
  assume h: "window_representable ts \<and> fault e Query = None"
  define res where
    "res = first (order_by_desc (\<lambda>r. micros (timestamp r))
       (filter (matches_candidate name path ts) (table (committed db))))"
  have a: "find_duplicate e db name path ts = Inr res"
    using h unfolding res_def by (simp add: find_duplicate_answered)
  have n: "res = None \<longleftrightarrow>
      (\<forall>r\<in>set (table (committed db)). \<not> matches_candidate name path ts r)"
    unfolding res_def first_order_by_desc_None filter_empty_conv ..
  have s: "\<forall>r. res = Some r \<longrightarrow>
      r \<in> set (table (committed db)) \<and> matches_candidate name path ts r \<and>
      (\<forall>r'\<in>set (table (committed db)). matches_candidate name path ts r' \<longrightarrow>
         micros (timestamp r') \<le> micros (timestamp r))"
  proof (intro allI impI)
    fix r assume "res = Some r"
    with a have f: "find_duplicate e db name path ts = Inr (Some r)" by simp
    show "r \<in> set (table (committed db)) \<and> matches_candidate name path ts r \<and>
      (\<forall>r'\<in>set (table (committed db)). matches_candidate name path ts r' \<longrightarrow>
         micros (timestamp r') \<le> micros (timestamp r))"
      using find_duplicate_Some [OF f] by blast
  qed
  from a n s show "\<exists>res. find_duplicate e db name path ts = Inr res \<and>
         (res = None \<longleftrightarrow>
            (\<forall>r\<in>set (table (committed db)). \<not> matches_candidate name path ts r)) \<and>
         (\<forall>r. res = Some r \<longrightarrow>
            r \<in> set (table (committed db)) \<and> matches_candidate name path ts r \<and>
            (\<forall>r'\<in>set (table (committed db)). matches_candidate name path ts r' \<longrightarrow>
               micros (timestamp r') \<le> micros (timestamp r)))"
    by (intro exI [of _ res] conjI)
next
  assume "\<not> window_representable ts"
  then show "find_duplicate e db name path ts = Inl OverflowError"
    by (rule find_duplicate_overflow)
qed


theorem find_duplicate_latest_in_window_witness:
  "find_duplicate (answering 63000000020000000)
     (SessionLocal \<lparr>table =
        [stored_row 1 (py ''a.py'') (py ''/tmp/a.py'') (py ''K1'') (py ''x'') 63000000000000000 63000000000500000,
         stored_row 2 (py ''a.py'') (py ''/tmp/a.py'') (py ''K2'') (py ''y'') 63000000003000000 63000000003500000,
         stored_row 3 (py ''a.py'') (py ''/tmp/a.py'') (py ''K1'') (py ''z'') 63000000009000000 63000000009500000,
         stored_row 4 (py ''b.py'') (py ''/tmp/b.py'') (py ''K1'') (py ''w'') 63000000002000000 63000000002500000],
        auto_increment = 5\<rparr>)
     (py ''a.py'') (py ''/tmp/a.py'') (naive 63000000001000000) =
   Inr (Some (stored_row 2 (py ''a.py'') (py ''/tmp/a.py'') (py ''K2'') (py ''y'') 63000000003000000 63000000003500000)) \<and>
   matches_candidate (py ''a.py'') (py ''/tmp/a.py'') (naive 63000000001000000)
     (stored_row 1 (py ''a.py'') (py ''/tmp/a.py'') (py ''K1'') (py ''x'') 63000000000000000 63000000000500000) \<and>
   \<not> matches_candidate (py ''a.py'') (py ''/tmp/a.py'') (naive 63000000001000000)
     (stored_row 3 (py ''a.py'') (py ''/tmp/a.py'') (py ''K1'') (py ''z'') 63000000009000000 63000000009500000) \<and>
   find_duplicate (answering 63000000020000000)
     (SessionLocal \<lparr>table =
        [stored_row 4 (py ''b.py'') (py ''/tmp/b.py'') (py ''K1'') (py ''w'') 63000000002000000 63000000002500000],
        auto_increment = 5\<rparr>)
     (py ''a.py'') (py ''/tmp/a.py'') (naive 63000000001000000) = Inr None \<and>
   find_duplicate (answering 63000000020000000) (SessionLocal empty_store)
     (py ''a.py'') (py ''/tmp/a.py'') (naive 2000000) = Inl OverflowError"
  using find_duplicate_latest_in_window
    [of "naive 63000000001000000" "answering 63000000020000000"
      "SessionLocal \<lparr>table =
        [stored_row 1 (py ''a.py'') (py ''/tmp/a.py'') (py ''K1'') (py ''x'') 63000000000000000 63000000000500000,
         stored_row 2 (py ''a.py'') (py ''/tmp/a.py'') (py ''K2'') (py ''y'') 63000000003000000 63000000003500000,
         stored_row 3 (py ''a.py'') (py ''/tmp/a.py'') (py ''K1'') (py ''z'') 63000000009000000 63000000009500000,
         stored_row 4 (py ''b.py'') (py ''/tmp/b.py'') (py ''K1'') (py ''w'') 63000000002000000 63000000002500000],
        auto_increment = 5\<rparr>"
      "py ''a.py''" "py ''/tmp/a.py''"]
    find_duplicate_latest_in_window
    [of "naive 2000000" "answering 63000000020000000" "SessionLocal empty_store"
      "py ''a.py''" "py ''/tmp/a.py''"]
  by (simp add: find_duplicate_def add_timedelta_def timedelta_seconds_def representable_def
      MAX_MICROS_def window_representable_def naive_def answering_def SessionLocal_def stored_row_def
      py_def store_eq_def between_def order_by_desc_def first_def matches_candidate_def
      empty_store_def)

text \<open>
  The claim as stated fails for a candidate two seconds after the first representable
  instant: a stored row of the same file at second five matches it, but the start of the
  window cannot be computed and the lookup raises.
\<close>

theorem find_duplicate_every_candidate_counterexample:
  "find_duplicate (answering 63000000020000000)
     (SessionLocal \<lparr>table =
        [stored_row 1 (py ''a.py'') (py ''/tmp/a.py'') (py ''K1'') (py ''x'') 5000000 63000000000500000],
        auto_increment = 2\<rparr>)
     (py ''a.py'') (py ''/tmp/a.py'') (naive 2000000) = Inl OverflowError \<and>
   matches_candidate (py ''a.py'') (py ''/tmp/a.py'') (naive 2000000)
     (stored_row 1 (py ''a.py'') (py ''/tmp/a.py'') (py ''K1'') (py ''x'') 5000000 63000000000500000)"
  by (simp add: find_duplicate_def add_timedelta_def timedelta_seconds_def representable_def
      naive_def stored_row_def matches_candidate_def)

section \<open>Listing snapshots\<close>

lemma list_tracked_files_answered:
  "fault e Query = None \<Longrightarrow>
   list_tracked_files e db k =
     Inr (str_nat (length (order_by_desc (\<lambda>r. micros (created_at r))
            (filter (\<lambda>r. key r = k) (table (committed db))))) @ py '' file snapshots found'',
          map model_validate (order_by_desc (\<lambda>r. micros (created_at r))
            (filter (\<lambda>r. key r = k) (table (committed db)))))"
  by (simp add: list_tracked_files_def store_eq_def Let_def)

lemma list_tracked_files_failed:
  "fault e Query = Some cause \<Longrightarrow> list_tracked_files e db k = Inl (DBAPIError cause)"
  by (simp add: list_tracked_files_def)

text \<open>
  C7, as amended. When the store answers the query, \<open>list_tracked_files\<close> returns, for
  exactly the rows whose key equals the given key (as a multiset), the id, file name,
  path, content, timestamp and creation time of each, ordered by \<open>created_at\<close>, latest
  first; the list is empty, and not an error, exactly when no row has the key. The order
  is the reverse order of insertion when the rows of the table were inserted at strictly
  increasing clock readings; the timestamp sent by the client plays no part. The only
  error is the failure of the query itself.
\<close>

theorem list_tracked_files_by_key:
  "(fault e Query = None \<longrightarrow>
     (\<exists>rows.
        list_tracked_files e db k =
          Inr (str_nat (length rows) @ py '' file snapshots found'',
               map (\<lambda>r. \<lparr>resp_id = row_id r, resp_fileName = fileName r,
                          resp_filePath = filePath r, resp_fullContent = fullContent r,
                          resp_timestamp = timestamp r, resp_created_at = created_at r\<rparr>)
                 rows) \<and>
        mset rows = filter_mset (\<lambda>r. key r = k) (mset (table (committed db))) \<and>
        sorted_wrt (\<lambda>a b. micros (created_at b) \<le> micros (created_at a)) rows \<and>
        (rows = [] \<longleftrightarrow> (\<forall>r\<in>set (table (committed db)). key r \<noteq> k)) \<and>
        (sorted_wrt (\<lambda>a b. micros (created_at a) < micros (created_at b)) (table (committed db)) \<longrightarrow>
           rows = rev (filter (\<lambda>r. key r = k) (table (committed db)))))) \<and>
   (fault e Query = Some cause \<longrightarrow> list_tracked_files e db k = Inl (DBAPIError cause))"
proof (intro conjI impI)
  assume q: "fault e Query = None"
  define mine where "mine = filter (\<lambda>r. key r = k) (table (committed db))"
  define rows where "rows = order_by_desc (\<lambda>r. micros (created_at r)) mine"
  have model_validate_fields: "model_validate =
     (\<lambda>r. \<lparr>resp_id = row_id r, resp_fileName = fileName r, resp_filePath = filePath r,
            resp_fullContent = fullContent r, resp_timestamp = timestamp r,
            resp_created_at = created_at r\<rparr>)"
    by (rule ext) (simp add: model_validate_def)
  have a: "list_tracked_files e db k =
      Inr (str_nat (length rows) @ py '' file snapshots found'',
           map (\<lambda>r. \<lparr>resp_id = row_id r, resp_fileName = fileName r,
                      resp_filePath = filePath r, resp_fullContent = fullContent r,
                      resp_timestamp = timestamp r, resp_created_at = created_at r\<rparr>)
             rows)"
    unfolding rows_def mine_def model_validate_fields [symmetric]
    using q by (rule list_tracked_files_answered)
  have m: "mset rows = filter_mset (\<lambda>r. key r = k) (mset (table (committed db)))"
    unfolding rows_def mine_def by (simp add: mset_order_by_desc)
  have s: "sorted_wrt (\<lambda>a b. micros (created_at b) \<le> micros (created_at a)) rows"
    unfolding rows_def by (rule sorted_order_by_desc)
  have "rows = [] \<longleftrightarrow> mine = []"
    using set_order_by_desc [of "\<lambda>r. micros (created_at r)" mine] unfolding rows_def
    by (metis set_empty)
  then have n: "rows = [] \<longleftrightarrow> (\<forall>r\<in>set (table (committed db)). key r \<noteq> k)"
    unfolding mine_def by (simp add: filter_empty_conv)
  have i: "sorted_wrt (\<lambda>a b. micros (created_at a) < micros (created_at b)) (table (committed db)) \<longrightarrow>
      rows = rev (filter (\<lambda>r. key r = k) (table (committed db)))"
  proof
    assume "sorted_wrt (\<lambda>a b. micros (created_at a) < micros (created_at b)) (table (committed db))"
    then have "sorted_wrt (\<lambda>a b. micros (created_at a) < micros (created_at b)) mine"
      unfolding mine_def by (rule sorted_wrt_filter)
    then show "rows = rev (filter (\<lambda>r. key r = k) (table (committed db)))"
      unfolding rows_def mine_def [symmetric] by (rule order_by_desc_increasing)
  qed
  from a m s n i show "\<exists>rows.
        list_tracked_files e db k =
          Inr (str_nat (length rows) @ py '' file snapshots found'',
               map (\<lambda>r. \<lparr>resp_id = row_id r, resp_fileName = fileName r,
                          resp_filePath = filePath r, resp_fullContent = fullContent r,
                          resp_timestamp = timestamp r, resp_created_at = created_at r\<rparr>)
                 rows) \<and>
        mset rows = filter_mset (\<lambda>r. key r = k) (mset (table (committed db))) \<and>
        sorted_wrt (\<lambda>a b. micros (created_at b) \<le> micros (created_at a)) rows \<and>
        (rows = [] \<longleftrightarrow> (\<forall>r\<in>set (table (committed db)). key r \<noteq> k)) \<and>
        (sorted_wrt (\<lambda>a b. micros (created_at a) < micros (created_at b)) (table (committed db)) \<longrightarrow>
           rows = rev (filter (\<lambda>r. key r = k) (table (committed db))))"
    by (intro exI [of _ rows] conjI)
next
  assume "fault e Query = Some cause"
  then show "list_tracked_files e db k = Inl (DBAPIError cause)"
    by (rule list_tracked_files_failed)
qed

theorem list_tracked_files_by_key_witness:
  "list_tracked_files (answering 63000000020000000)
     (SessionLocal \<lparr>table =
        [stored_row 1 (py ''a.py'') (py ''/tmp/a.py'') (py ''K1'') (py ''x'') 63000000009000000 63000000000500000,
         stored_row 2 (py ''b.py'') (py ''/tmp/b.py'') (py ''K2'') (py ''y'') 63000000003000000 63000000003500000,
         stored_row 3 (py ''c.py'') (py ''/tmp/c.py'') (py ''K1'') (py ''z'') 63000000001000000 63000000009500000],
        auto_increment = 4\<rparr>)
     (py ''K1'') =
   Inr (py ''2 file snapshots found'',
     [\<lparr>resp_id = 3, resp_fileName = py ''c.py'', resp_filePath = py ''/tmp/c.py'',
       resp_fullContent = py ''z'',
       resp_timestamp = \<lparr>micros = 63000000001000000, tzinfo = None\<rparr>,
       resp_created_at = \<lparr>micros = 63000000009500000, tzinfo = None\<rparr>\<rparr>,
      \<lparr>resp_id = 1, resp_fileName = py ''a.py'', resp_filePath = py ''/tmp/a.py'',
       resp_fullContent = py ''x'',
       resp_timestamp = \<lparr>micros = 63000000009000000, tzinfo = None\<rparr>,
       resp_created_at = \<lparr>micros = 63000000000500000, tzinfo = None\<rparr>\<rparr>]) \<and>
   list_tracked_files (answering 63000000020000000) (SessionLocal empty_store) (py ''K1'') =
   Inr (py ''0 file snapshots found'', []) \<and>
   list_tracked_files (failing 63000000020000000 Query (py ''gone'')) (SessionLocal empty_store)
     (py ''K1'') = Inl (DBAPIError (py ''gone''))"
proof -
  have evaluated: ?thesis
    by (simp add: list_tracked_files_def answering_def failing_def SessionLocal_def stored_row_def
        naive_def py_def store_eq_def order_by_desc_def empty_store_def model_validate_def)
  with list_tracked_files_by_key
    [of "answering 63000000020000000"
      "SessionLocal \<lparr>table =
        [stored_row 1 (py ''a.py'') (py ''/tmp/a.py'') (py ''K1'') (py ''x'') 63000000009000000 63000000000500000,
         stored_row 2 (py ''b.py'') (py ''/tmp/b.py'') (py ''K2'') (py ''y'') 63000000003000000 63000000003500000,
         stored_row 3 (py ''c.py'') (py ''/tmp/c.py'') (py ''K1'') (py ''z'') 63000000001000000 63000000009500000],
        auto_increment = 4\<rparr>"
      "py ''K1''"]
    list_tracked_files_by_key
    [of "answering 63000000020000000" "SessionLocal empty_store" "py ''K1''"]
    list_tracked_files_by_key
    [of "failing 63000000020000000 Query (py ''gone'')" "SessionLocal empty_store" "py ''K1''"
      "py ''gone''"]
  show ?thesis by simp
qed

text \<open>
  The claim as stated fails for a clock that is set back between two inserts: the row
  with id 1 is inserted at the clock reading 63000000020000000 and the row with id 2
  after it at the reading 63000000010000000; the listing, ordered by \<open>created_at\<close>,
  puts the row inserted first in front of the row inserted last.
\<close>

theorem list_insertion_order_counterexample:
  "get_files (answering 63000000030000000) (Some (py ''K1''))
     (serve_all
        [Post (answering 63000000020000000) (Some (py ''K1''))
           (request_body (py ''a.py'') (py ''/tmp/a.py'') (py ''x'') (naive 63000000000000000)),
         Post (answering 63000000010000000) (Some (py ''K1''))
           (request_body (py ''b.py'') (py ''/tmp/b.py'') (py ''y'') (naive 63000000001000000))]
        empty_store) =
   (Returned (py ''2 file snapshots found'',
      [\<lparr>resp_id = 1, resp_fileName = py ''a.py'', resp_filePath = py ''/tmp/a.py'',
        resp_fullContent = py ''x'',
        resp_timestamp = \<lparr>micros = 63000000000000000, tzinfo = None\<rparr>,
        resp_created_at = \<lparr>micros = 63000000020000000, tzinfo = None\<rparr>\<rparr>,
       \<lparr>resp_id = 2, resp_fileName = py ''b.py'', resp_filePath = py ''/tmp/b.py'',
        resp_fullContent = py ''y'',
        resp_timestamp = \<lparr>micros = 63000000001000000, tzinfo = None\<rparr>,
        resp_created_at = \<lparr>micros = 63000000010000000, tzinfo = None\<rparr>\<rparr>]),
    \<lparr>table =
       [stored_row 1 (py ''a.py'') (py ''/tmp/a.py'') (py ''K1'') (py ''x'')
          63000000000000000 63000000020000000,
        stored_row 2 (py ''b.py'') (py ''/tmp/b.py'') (py ''K1'') (py ''y'')
          63000000001000000 63000000010000000],
     auto_increment = 3\<rparr>)"
  by (simp add: create_tracked_file_def try_create_def find_duplicate_def
      normalize_timestamp_def add_timedelta_def timedelta_seconds_def representable_def
      MAX_MICROS_def db_add_def db_commit_def db_refresh_def db_close_def SessionLocal_def
      insert_row_def model_validate_def order_by_desc_def first_def store_eq_def between_def
      compress_content_def strip_def is_space_def naive_def answering_def stored_row_def
      request_body_def empty_store_def py_def post_files_def get_files_def require_api_key_def
      list_tracked_files_def Let_def)

section \<open>Creating a snapshot\<close>

lemma flush_one:
  "flush e st [obj] = ([fst (insert_row e st obj)], snd (insert_row e st obj))"
  by (simp split: prod.splits)

lemma insert_row_request:
  "insert_row e st
     \<lparr>new_fileName = req_fileName p, new_filePath = req_filePath p, new_key = k,
      new_fullContent = compress_content (req_fullContent p), new_timestamp = ts\<rparr> =
   (inserted_row e st p k ts, store_with st (inserted_row e st p k ts))"
  by (simp add: insert_row_def inserted_row_def store_with_def Let_def)

lemma create_duplicate:
  "normalize_timestamp (req_timestamp p) = Inr ts \<Longrightarrow>
   find_duplicate e db (req_fileName p) (req_filePath p) ts = Inr (Some r) \<Longrightarrow>
   create_tracked_file e p db k =
     (Inr (JSONResponse 200 (py ''File snapshot already stored'') (model_validate r)), db)"
  by (simp add: create_tracked_file_def try_create_def)

lemma create_inserted:
  "normalize_timestamp (req_timestamp p) = Inr ts \<Longrightarrow>
   find_duplicate e (SessionLocal st) (req_fileName p) (req_filePath p) ts = Inr None \<Longrightarrow>
   fault e Commit = None \<Longrightarrow> fault e Refresh = None \<Longrightarrow>
   create_tracked_file e p (SessionLocal st) k =
     (Inr (JSONResponse 201 (py ''File snapshot created'')
        (model_validate (inserted_row e st p k ts))),
      SessionLocal (store_with st (inserted_row e st p k ts)))"
  by (simp add: create_tracked_file_def try_create_def db_add_def db_commit_def db_refresh_def
      SessionLocal_def flush_one insert_row_request Let_def)

lemma create_normalize_failed:
  "normalize_timestamp (req_timestamp p) = Inl exc \<Longrightarrow>
   create_tracked_file e p db k =
     (Inl (HTTPException 500 (py ''Failed to save file: '' @ str_exn exc)), db_rollback db)"
  by (simp add: create_tracked_file_def try_create_def)

lemma create_lookup_failed:
  "normalize_timestamp (req_timestamp p) = Inr ts \<Longrightarrow>
   find_duplicate e db (req_fileName p) (req_filePath p) ts = Inl exc \<Longrightarrow>
   create_tracked_file e p db k =
     (Inl (HTTPException 500 (py ''Failed to save file: '' @ str_exn exc)), db_rollback db)"
  by (simp add: create_tracked_file_def try_create_def)

lemma create_commit_failed:
  "normalize_timestamp (req_timestamp p) = Inr ts \<Longrightarrow>
   find_duplicate e (SessionLocal st) (req_fileName p) (req_filePath p) ts = Inr None \<Longrightarrow>
   fault e Commit = Some cause \<Longrightarrow>
   create_tracked_file e p (SessionLocal st) k =
     (Inl (HTTPException 500 (py ''Failed to save file: '' @ cause)), SessionLocal st)"
  by (simp add: create_tracked_file_def try_create_def db_add_def db_commit_def db_rollback_def
      SessionLocal_def Let_def)

lemma create_refresh_failed:
  "normalize_timestamp (req_timestamp p) = Inr ts \<Longrightarrow>
   find_duplicate e (SessionLocal st) (req_fileName p) (req_filePath p) ts = Inr None \<Longrightarrow>
   fault e Commit = None \<Longrightarrow> fault e Refresh = Some cause \<Longrightarrow>
   create_tracked_file e p (SessionLocal st) k =
     (Inl (HTTPException 500 (py ''Failed to save file: '' @ cause)),
      SessionLocal (store_with st (inserted_row e st p k ts)))"
  by (simp add: create_tracked_file_def try_create_def db_add_def db_commit_def db_refresh_def
      db_rollback_def SessionLocal_def flush_one insert_row_request Let_def)

lemma rollback_fresh: "db_rollback (SessionLocal st) = SessionLocal st"
  by (simp add: db_rollback_def SessionLocal_def)

text \<open>Every call on a new session ends in one of six ways.\<close>

lemma create_cases:
  obtains
    (normalize_failed) exc where "normalize_timestamp (req_timestamp p) = Inl exc"
      "create_tracked_file e p (SessionLocal st) k =
         (Inl (HTTPException 500 (py ''Failed to save file: '' @ str_exn exc)), SessionLocal st)"
  | (lookup_failed) ts exc where "normalize_timestamp (req_timestamp p) = Inr ts"
      "find_duplicate e (SessionLocal st) (req_fileName p) (req_filePath p) ts = Inl exc"
      "create_tracked_file e p (SessionLocal st) k =
         (Inl (HTTPException 500 (py ''Failed to save file: '' @ str_exn exc)), SessionLocal st)"
  | (duplicate) ts r where "normalize_timestamp (req_timestamp p) = Inr ts"
      "find_duplicate e (SessionLocal st) (req_fileName p) (req_filePath p) ts = Inr (Some r)"
      "create_tracked_file e p (SessionLocal st) k =
         (Inr (JSONResponse 200 (py ''File snapshot already stored'') (model_validate r)),
          SessionLocal st)"
  | (commit_failed) ts cause where "normalize_timestamp (req_timestamp p) = Inr ts"
      "find_duplicate e (SessionLocal st) (req_fileName p) (req_filePath p) ts = Inr None"
      "fault e Commit = Some cause"
      "create_tracked_file e p (SessionLocal st) k =
         (Inl (HTTPException 500 (py ''Failed to save file: '' @ cause)), SessionLocal st)"
  | (refresh_failed) ts cause where "normalize_timestamp (req_timestamp p) = Inr ts"
      "find_duplicate e (SessionLocal st) (req_fileName p) (req_filePath p) ts = Inr None"
      "fault e Commit = None" "fault e Refresh = Some cause"
      "create_tracked_file e p (SessionLocal st) k =
         (Inl (HTTPException 500 (py ''Failed to save file: '' @ cause)),
          SessionLocal (store_with st (inserted_row e st p k ts)))"
  | (inserted) ts where "normalize_timestamp (req_timestamp p) = Inr ts"
      "find_duplicate e (SessionLocal st) (req_fileName p) (req_filePath p) ts = Inr None"
      "fault e Commit = None" "fault e Refresh = None"
      "create_tracked_file e p (SessionLocal st) k =
         (Inr (JSONResponse 201 (py ''File snapshot created'')
            (model_validate (inserted_row e st p k ts))),
          SessionLocal (store_with st (inserted_row e st p k ts)))"
proof (cases "normalize_timestamp (req_timestamp p)")
  case (Inl exc)
  then show ?thesis
    using normalize_failed create_normalize_failed [of p exc e "SessionLocal st" k]
    by (simp add: rollback_fresh)
next
  case (Inr ts)
  show ?thesis
  proof (cases "find_duplicate e (SessionLocal st) (req_fileName p) (req_filePath p) ts")
    case (Inl exc)
    then show ?thesis
      using lookup_failed Inr create_lookup_failed [of p ts e "SessionLocal st" exc k]
      by (simp add: rollback_fresh)
  next
    case found: (Inr res)
    show ?thesis
    proof (cases res)
      case (Some r)
      then show ?thesis
        using duplicate Inr found create_duplicate [of p ts e "SessionLocal st" r k] by simp
    next
      case None
      show ?thesis
      proof (cases "fault e Commit")
        case (Some cause)
        then show ?thesis
          using commit_failed Inr found None create_commit_failed [of p ts e st cause k] by simp
      next
        case c: None
        show ?thesis
        proof (cases "fault e Refresh")
          case (Some cause)
          then show ?thesis
            using refresh_failed Inr found None c create_refresh_failed [of p ts e st cause k]
            by simp
        next
          case r: None
          then show ?thesis
            using inserted Inr found None c create_inserted [of p ts e st k] by simp
        qed
      qed
    qed
  qed
qed

lemma post_files_with_key:
  "k \<noteq> [] \<Longrightarrow> create_tracked_file e p (SessionLocal st) k = (Inr response, db') \<Longrightarrow>
   post_files e (Some k) p st = (Returned response, committed db')"
  by (simp add: post_files_def require_api_key_def db_close_def)

lemma post_files_with_key_failed:
  "k \<noteq> [] \<Longrightarrow> create_tracked_file e p (SessionLocal st) k = (Inl exc, db') \<Longrightarrow>
   post_files e (Some k) p st = (Raised exc, committed db')"
  by (simp add: post_files_def require_api_key_def db_close_def)

lemma post_files_without_key:
  "x = None \<or> x = Some [] \<Longrightarrow>
   post_files e x p st = (Raised (HTTPException 401 (py ''Missing x-api-key header'')), st)"
  by (auto simp: post_files_def require_api_key_def db_close_def SessionLocal_def)

lemma post_files_Returned:
  assumes "post_files e x p st = (Returned response, st')"
  obtains k db' where "x = Some k" "k \<noteq> []"
    "create_tracked_file e p (SessionLocal st) k = (Inr response, db')" "st' = committed db'"
proof (cases "x = None \<or> x = Some []")
  case True
  then show ?thesis using assms post_files_without_key [of x e p st] by simp
next
  case False
  then obtain k where k: "x = Some k" "k \<noteq> []" by (cases x) auto
  obtain res db' where c: "create_tracked_file e p (SessionLocal st) k = (res, db')"
    by (cases "create_tracked_file e p (SessionLocal st) k") auto
  show ?thesis
  proof (cases res)
    case (Inl exc)
    then show ?thesis using assms k c post_files_with_key_failed [of k e p st exc db'] by simp
  next
    case (Inr response')
    then show ?thesis using assms k c post_files_with_key [of k e p st response' db'] that
      by simp
  qed
qed

lemma committed_SessionLocal: "committed (SessionLocal st) = st"
  by (simp add: SessionLocal_def)

lemma pending_SessionLocal: "pending (SessionLocal st) = []"
  by (simp add: SessionLocal_def)

lemma table_store_with: "table (store_with st r) = table st @ [r]"
  by (simp add: store_with_def)

lemmas eval_defs =
  create_tracked_file_def try_create_def find_duplicate_def normalize_timestamp_def
  add_timedelta_def timedelta_seconds_def representable_def MAX_MICROS_def
  db_add_def db_commit_def db_refresh_def db_rollback_def db_close_def SessionLocal_def
  insert_row_def inserted_row_def store_with_def model_validate_def
  order_by_desc_def first_def store_eq_def between_def
  compress_content_def strip_def is_space_def
  naive_def answering_def failing_def stored_row_def request_body_def empty_store_def py_def
  post_files_def get_files_def require_api_key_def list_tracked_files_def Let_def

lemma store_with_fields:
  "store_with st new = \<lparr>table = table st @ [new], auto_increment = auto_increment st + 1\<rparr>"
  by (simp add: store_with_def)

lemma find_duplicate_failed:
  assumes "find_duplicate e db name path ts = Inl exc"
  shows "(\<not> window_representable ts \<and> exc = OverflowError) \<or>
    (window_representable ts \<and> (\<exists>cause. fault e Query = Some cause \<and> exc = DBAPIError cause))"
proof (cases "window_representable ts")
  case False
  then show ?thesis using assms find_duplicate_overflow [of ts e db name path] by simp
next
  case True
  show ?thesis
  proof (cases "fault e Query")
    case None
    then show ?thesis using assms True find_duplicate_answered [of ts e db name path] by simp
  next
    case (Some cause)
    then show ?thesis using assms True find_duplicate_fault [of ts e cause db name path] by simp
  qed
qed

text \<open>
  C2, as amended. A call of \<open>create_tracked_file\<close> on the session of a request. When
  the lookup finds a stored row, the call answers 200 "File snapshot already stored" with
  the id, file name, path, content, timestamp and creation time of that row and leaves
  the session and the store as they were. When the lookup finds none and the store
  accepts the commit and the re-read, the call answers 201 "File snapshot created" with
  the fields of the new row, and the table is the old table with exactly that row
  appended. Every other call fails with the status 500: nothing is written when the
  normalization of the timestamp, the lookup or the commit fails, and exactly the new
  row has been appended when the commit succeeds and only the re-read fails. Conversely,
  an answer 200 comes with an unchanged store and the fields of a stored row, and an
  answer 201 with exactly one appended row, whose fields are the ones returned.
\<close>

theorem create_duplicate_or_insert:
  "new = \<lparr>row_id = auto_increment st, fileName = req_fileName p, filePath = req_filePath p,
          key = k, fullContent = compress_content (req_fullContent p), timestamp = ts,
          created_at = utcnow e\<rparr> \<longrightarrow>
   (normalize_timestamp (req_timestamp p) = Inr ts \<and>
    find_duplicate e (SessionLocal st) (req_fileName p) (req_filePath p) ts = Inr (Some r) \<longrightarrow>
      create_tracked_file e p (SessionLocal st) k =
        (Inr (JSONResponse 200 (py ''File snapshot already stored'')
           \<lparr>resp_id = row_id r, resp_fileName = fileName r, resp_filePath = filePath r,
            resp_fullContent = fullContent r, resp_timestamp = timestamp r,
            resp_created_at = created_at r\<rparr>),
         SessionLocal st)) \<and>
   (normalize_timestamp (req_timestamp p) = Inr ts \<and>
    find_duplicate e (SessionLocal st) (req_fileName p) (req_filePath p) ts = Inr None \<and>
    fault e Commit = None \<and> fault e Refresh = None \<longrightarrow>
      create_tracked_file e p (SessionLocal st) k =
        (Inr (JSONResponse 201 (py ''File snapshot created'')
           \<lparr>resp_id = auto_increment st, resp_fileName = req_fileName p,
            resp_filePath = req_filePath p,
            resp_fullContent = compress_content (req_fullContent p), resp_timestamp = ts,
            resp_created_at = utcnow e\<rparr>),
         SessionLocal \<lparr>table = table st @ [new], auto_increment = auto_increment st + 1\<rparr>)) \<and>
   (normalize_timestamp (req_timestamp p) = Inr ts \<and>
    find_duplicate e (SessionLocal st) (req_fileName p) (req_filePath p) ts = Inr None \<and>
    fault e Commit = Some cause \<longrightarrow>
      create_tracked_file e p (SessionLocal st) k =
        (Inl (HTTPException 500 (py ''Failed to save file: '' @ cause)), SessionLocal st)) \<and>
   (normalize_timestamp (req_timestamp p) = Inr ts \<and>
    find_duplicate e (SessionLocal st) (req_fileName p) (req_filePath p) ts = Inr None \<and>
    fault e Commit = None \<and> fault e Refresh = Some cause \<longrightarrow>
      create_tracked_file e p (SessionLocal st) k =
        (Inl (HTTPException 500 (py ''Failed to save file: '' @ cause)),
         SessionLocal \<lparr>table = table st @ [new], auto_increment = auto_increment st + 1\<rparr>)) \<and>
   (normalize_timestamp (req_timestamp p) = Inl exc \<longrightarrow>
      create_tracked_file e p (SessionLocal st) k =
        (Inl (HTTPException 500 (py ''Failed to save file: '' @ str_exn exc)), SessionLocal st)) \<and>
   (normalize_timestamp (req_timestamp p) = Inr ts \<and>
    find_duplicate e (SessionLocal st) (req_fileName p) (req_filePath p) ts = Inl exc \<longrightarrow>
      create_tracked_file e p (SessionLocal st) k =
        (Inl (HTTPException 500 (py ''Failed to save file: '' @ str_exn exc)), SessionLocal st)) \<and>
   (create_tracked_file e p (SessionLocal st) k = (Inr (JSONResponse code msg d), db') \<longrightarrow>
      (code = 200 \<and> msg = py ''File snapshot already stored'' \<and> db' = SessionLocal st \<and>
       (\<exists>r\<in>set (table st).
          d = \<lparr>resp_id = row_id r, resp_fileName = fileName r, resp_filePath = filePath r,
               resp_fullContent = fullContent r, resp_timestamp = timestamp r,
               resp_created_at = created_at r\<rparr>)) \<or>
      (code = 201 \<and> msg = py ''File snapshot created'' \<and> pending db' = [] \<and>
       (\<exists>row. table (committed db') = table st @ [row] \<and>
          d = \<lparr>resp_id = row_id row, resp_fileName = fileName row,
               resp_filePath = filePath row, resp_fullContent = fullContent row,
               resp_timestamp = timestamp row, resp_created_at = created_at row\<rparr>)))"
proof
  assume "new = \<lparr>row_id = auto_increment st, fileName = req_fileName p, filePath = req_filePath p,
          key = k, fullContent = compress_content (req_fullContent p), timestamp = ts,
          created_at = utcnow e\<rparr>"
  then have new: "new = inserted_row e st p k ts" by (simp add: inserted_row_def)
  have st': "\<lparr>table = table st @ [new], auto_increment = auto_increment st + 1\<rparr> =
      store_with st (inserted_row e st p k ts)"
    unfolding new by (simp add: store_with_fields)
  have d: "\<lparr>resp_id = auto_increment st, resp_fileName = req_fileName p,
            resp_filePath = req_filePath p,
            resp_fullContent = compress_content (req_fullContent p), resp_timestamp = ts,
            resp_created_at = utcnow e\<rparr> = model_validate (inserted_row e st p k ts)"
    by (simp add: model_validate_def inserted_row_def)
  have found: "normalize_timestamp (req_timestamp p) = Inr ts \<and>
    find_duplicate e (SessionLocal st) (req_fileName p) (req_filePath p) ts = Inr (Some r) \<longrightarrow>
      create_tracked_file e p (SessionLocal st) k =
        (Inr (JSONResponse 200 (py ''File snapshot already stored'')
           \<lparr>resp_id = row_id r, resp_fileName = fileName r, resp_filePath = filePath r,
            resp_fullContent = fullContent r, resp_timestamp = timestamp r,
            resp_created_at = created_at r\<rparr>),
         SessionLocal st)"
    using create_duplicate [of p ts e "SessionLocal st" r k]
    by (simp add: model_validate_def)
  have inserted: "normalize_timestamp (req_timestamp p) = Inr ts \<and>
    find_duplicate e (SessionLocal st) (req_fileName p) (req_filePath p) ts = Inr None \<and>
    fault e Commit = None \<and> fault e Refresh = None \<longrightarrow>
      create_tracked_file e p (SessionLocal st) k =
        (Inr (JSONResponse 201 (py ''File snapshot created'')
           \<lparr>resp_id = auto_increment st, resp_fileName = req_fileName p,
            resp_filePath = req_filePath p,
            resp_fullContent = compress_content (req_fullContent p), resp_timestamp = ts,
            resp_created_at = utcnow e\<rparr>),
         SessionLocal \<lparr>table = table st @ [new], auto_increment = auto_increment st + 1\<rparr>)"
    unfolding st' d using create_inserted [of p ts e st k] by simp
  have commit: "normalize_timestamp (req_timestamp p) = Inr ts \<and>
    find_duplicate e (SessionLocal st) (req_fileName p) (req_filePath p) ts = Inr None \<and>
    fault e Commit = Some cause \<longrightarrow>
      create_tracked_file e p (SessionLocal st) k =
        (Inl (HTTPException 500 (py ''Failed to save file: '' @ cause)), SessionLocal st)"
    using create_commit_failed [of p ts e st cause k] by simp
  have refresh: "normalize_timestamp (req_timestamp p) = Inr ts \<and>
    find_duplicate e (SessionLocal st) (req_fileName p) (req_filePath p) ts = Inr None \<and>
    fault e Commit = None \<and> fault e Refresh = Some cause \<longrightarrow>
      create_tracked_file e p (SessionLocal st) k =
        (Inl (HTTPException 500 (py ''Failed to save file: '' @ cause)),
         SessionLocal \<lparr>table = table st @ [new], auto_increment = auto_increment st + 1\<rparr>)"
    unfolding st' using create_refresh_failed [of p ts e st cause k] by simp
  have normalize: "normalize_timestamp (req_timestamp p) = Inl exc \<longrightarrow>
      create_tracked_file e p (SessionLocal st) k =
        (Inl (HTTPException 500 (py ''Failed to save file: '' @ str_exn exc)), SessionLocal st)"
    using create_normalize_failed [of p exc e "SessionLocal st" k] by (simp add: rollback_fresh)
  have lookup: "normalize_timestamp (req_timestamp p) = Inr ts \<and>
    find_duplicate e (SessionLocal st) (req_fileName p) (req_filePath p) ts = Inl exc \<longrightarrow>
      create_tracked_file e p (SessionLocal st) k =
        (Inl (HTTPException 500 (py ''Failed to save file: '' @ str_exn exc)), SessionLocal st)"
    using create_lookup_failed [of p ts e "SessionLocal st" exc k] by (simp add: rollback_fresh)
  have answered: "create_tracked_file e p (SessionLocal st) k = (Inr (JSONResponse code msg d), db') \<longrightarrow>
      (code = 200 \<and> msg = py ''File snapshot already stored'' \<and> db' = SessionLocal st \<and>
       (\<exists>r\<in>set (table st).
          d = \<lparr>resp_id = row_id r, resp_fileName = fileName r, resp_filePath = filePath r,
               resp_fullContent = fullContent r, resp_timestamp = timestamp r,
               resp_created_at = created_at r\<rparr>)) \<or>
      (code = 201 \<and> msg = py ''File snapshot created'' \<and> pending db' = [] \<and>
       (\<exists>row. table (committed db') = table st @ [row] \<and>
          d = \<lparr>resp_id = row_id row, resp_fileName = fileName row,
               resp_filePath = filePath row, resp_fullContent = fullContent row,
               resp_timestamp = timestamp row, resp_created_at = created_at row\<rparr>))"
  proof
    assume a: "create_tracked_file e p (SessionLocal st) k = (Inr (JSONResponse code msg d), db')"
    show "(code = 200 \<and> msg = py ''File snapshot already stored'' \<and> db' = SessionLocal st \<and>
       (\<exists>r\<in>set (table st).
          d = \<lparr>resp_id = row_id r, resp_fileName = fileName r, resp_filePath = filePath r,
               resp_fullContent = fullContent r, resp_timestamp = timestamp r,
               resp_created_at = created_at r\<rparr>)) \<or>
      (code = 201 \<and> msg = py ''File snapshot created'' \<and> pending db' = [] \<and>
       (\<exists>row. table (committed db') = table st @ [row] \<and>
          d = \<lparr>resp_id = row_id row, resp_fileName = fileName row,
               resp_filePath = filePath row, resp_fullContent = fullContent row,
               resp_timestamp = timestamp row, resp_created_at = created_at row\<rparr>))"
    proof (cases rule: create_cases [of p e st k])
      case (normalize_failed exc)
      with a show ?thesis by simp
    next
      case (lookup_failed ts exc)
      with a show ?thesis by simp
    next
      case (duplicate ts' r')
      have "r' \<in> set (table st)"
        using find_duplicate_Some(1) [OF duplicate(2)] by (simp add: committed_SessionLocal)
      with a duplicate(3) show ?thesis by (auto simp: model_validate_def)
    next
      case (commit_failed ts cause)
      with a show ?thesis by simp
    next
      case (refresh_failed ts cause)
      with a show ?thesis by simp
    next
      case (inserted ts')
      with a have "code = 201" "msg = py ''File snapshot created''"
        "db' = SessionLocal (store_with st (inserted_row e st p k ts'))"
        "d = model_validate (inserted_row e st p k ts')"
        by simp_all
      then have "code = 201 \<and> msg = py ''File snapshot created'' \<and> pending db' = [] \<and>
        table (committed db') = table st @ [inserted_row e st p k ts'] \<and>
        d = \<lparr>resp_id = row_id (inserted_row e st p k ts'),
             resp_fileName = fileName (inserted_row e st p k ts'),
             resp_filePath = filePath (inserted_row e st p k ts'),
             resp_fullContent = fullContent (inserted_row e st p k ts'),
             resp_timestamp = timestamp (inserted_row e st p k ts'),
             resp_created_at = created_at (inserted_row e st p k ts')\<rparr>"
        by (simp add: committed_SessionLocal pending_SessionLocal table_store_with
            model_validate_def)
      then show ?thesis by blast
    qed
  qed
  from found inserted commit refresh normalize lookup answered
  show "(normalize_timestamp (req_timestamp p) = Inr ts \<and>
    find_duplicate e (SessionLocal st) (req_fileName p) (req_filePath p) ts = Inr (Some r) \<longrightarrow>
      create_tracked_file e p (SessionLocal st) k =
        (Inr (JSONResponse 200 (py ''File snapshot already stored'')
           \<lparr>resp_id = row_id r, resp_fileName = fileName r, resp_filePath = filePath r,
            resp_fullContent = fullContent r, resp_timestamp = timestamp r,
            resp_created_at = created_at r\<rparr>),
         SessionLocal st)) \<and>
   (normalize_timestamp (req_timestamp p) = Inr ts \<and>
    find_duplicate e (SessionLocal st) (req_fileName p) (req_filePath p) ts = Inr None \<and>
    fault e Commit = None \<and> fault e Refresh = None \<longrightarrow>
      create_tracked_file e p (SessionLocal st) k =
        (Inr (JSONResponse 201 (py ''File snapshot created'')
           \<lparr>resp_id = auto_increment st, resp_fileName = req_fileName p,
            resp_filePath = req_filePath p,
            resp_fullContent = compress_content (req_fullContent p), resp_timestamp = ts,
            resp_created_at = utcnow e\<rparr>),
         SessionLocal \<lparr>table = table st @ [new], auto_increment = auto_increment st + 1\<rparr>)) \<and>
   (normalize_timestamp (req_timestamp p) = Inr ts \<and>
    find_duplicate e (SessionLocal st) (req_fileName p) (req_filePath p) ts = Inr None \<and>
    fault e Commit = Some cause \<longrightarrow>
      create_tracked_file e p (SessionLocal st) k =
        (Inl (HTTPException 500 (py ''Failed to save file: '' @ cause)), SessionLocal st)) \<and>
   (normalize_timestamp (req_timestamp p) = Inr ts \<and>
    find_duplicate e (SessionLocal st) (req_fileName p) (req_filePath p) ts = Inr None \<and>
    fault e Commit = None \<and> fault e Refresh = Some cause \<longrightarrow>
      create_tracked_file e p (SessionLocal st) k =
        (Inl (HTTPException 500 (py ''Failed to save file: '' @ cause)),
         SessionLocal \<lparr>table = table st @ [new], auto_increment = auto_increment st + 1\<rparr>)) \<and>
   (normalize_timestamp (req_timestamp p) = Inl exc \<longrightarrow>
      create_tracked_file e p (SessionLocal st) k =
        (Inl (HTTPException 500 (py ''Failed to save file: '' @ str_exn exc)), SessionLocal st)) \<and>
   (normalize_timestamp (req_timestamp p) = Inr ts \<and>
    find_duplicate e (SessionLocal st) (req_fileName p) (req_filePath p) ts = Inl exc \<longrightarrow>
      create_tracked_file e p (SessionLocal st) k =
        (Inl (HTTPException 500 (py ''Failed to save file: '' @ str_exn exc)), SessionLocal st)) \<and>
   (create_tracked_file e p (SessionLocal st) k = (Inr (JSONResponse code msg d), db') \<longrightarrow>
      (code = 200 \<and> msg = py ''File snapshot already stored'' \<and> db' = SessionLocal st \<and>
       (\<exists>r\<in>set (table st).
          d = \<lparr>resp_id = row_id r, resp_fileName = fileName r, resp_filePath = filePath r,
               resp_fullContent = fullContent r, resp_timestamp = timestamp r,
               resp_created_at = created_at r\<rparr>)) \<or>
      (code = 201 \<and> msg = py ''File snapshot created'' \<and> pending db' = [] \<and>
       (\<exists>row. table (committed db') = table st @ [row] \<and>
          d = \<lparr>resp_id = row_id row, resp_fileName = fileName row,
               resp_filePath = filePath row, resp_fullContent = fullContent row,
               resp_timestamp = timestamp row, resp_created_at = created_at row\<rparr>)))"
    by (intro conjI)
qed

theorem create_duplicate_or_insert_witness:
  "create_tracked_file (answering 63000000020000000)
     (request_body (py ''a.py'') (py ''/tmp/a.py'') [120, 32, 32, 32, 121, 10, 10, 122]
        (naive 63000000000000000))
     (SessionLocal empty_store) (py ''K1'') =
   (Inr (JSONResponse 201 (py ''File snapshot created'')
      \<lparr>resp_id = 1, resp_fileName = py ''a.py'', resp_filePath = py ''/tmp/a.py'',
       resp_fullContent = py ''x y z'',
       resp_timestamp = \<lparr>micros = 63000000000000000, tzinfo = None\<rparr>,
       resp_created_at = \<lparr>micros = 63000000020000000, tzinfo = None\<rparr>\<rparr>),
    SessionLocal \<lparr>table = [stored_row 1 (py ''a.py'') (py ''/tmp/a.py'') (py ''K1'') (py ''x y z'')
         63000000000000000 63000000020000000], auto_increment = 2\<rparr>) \<and>
   create_tracked_file (answering 63000000030000000)
     (request_body (py ''a.py'') (py ''/tmp/a.py'') (py ''other'') (naive 63000000004000000))
     (SessionLocal \<lparr>table = [stored_row 1 (py ''a.py'') (py ''/tmp/a.py'') (py ''K1'') (py ''x y z'')
         63000000000000000 63000000020000000], auto_increment = 2\<rparr>) (py ''K1'') =
   (Inr (JSONResponse 200 (py ''File snapshot already stored'')
      \<lparr>resp_id = 1, resp_fileName = py ''a.py'', resp_filePath = py ''/tmp/a.py'',
       resp_fullContent = py ''x y z'',
       resp_timestamp = \<lparr>micros = 63000000000000000, tzinfo = None\<rparr>,
       resp_created_at = \<lparr>micros = 63000000020000000, tzinfo = None\<rparr>\<rparr>),
    SessionLocal \<lparr>table = [stored_row 1 (py ''a.py'') (py ''/tmp/a.py'') (py ''K1'') (py ''x y z'')
         63000000000000000 63000000020000000], auto_increment = 2\<rparr>) \<and>
   create_tracked_file (failing 63000000020000000 Refresh (py ''gone''))
     (request_body (py ''a.py'') (py ''/tmp/a.py'') [120, 32, 32, 32, 121, 10, 10, 122]
        (naive 63000000000000000))
     (SessionLocal empty_store) (py ''K1'') =
   (Inl (HTTPException 500 (py ''Failed to save file: gone'')),
    SessionLocal \<lparr>table = [stored_row 1 (py ''a.py'') (py ''/tmp/a.py'') (py ''K1'') (py ''x y z'')
         63000000000000000 63000000020000000], auto_increment = 2\<rparr>) \<and>
   create_tracked_file (answering 63000000020000000)
     (request_body (py ''a.py'') (py ''/tmp/a.py'') (py ''x'') (naive 2000000))
     (SessionLocal empty_store) (py ''K1'') =
   (Inl (HTTPException 500 (py ''Failed to save file: date value out of range'')),
    SessionLocal empty_store)"
proof -
  have evaluated: ?thesis
    by (simp add: eval_defs)
  with create_duplicate_or_insert
    [where p = "request_body (py ''a.py'') (py ''/tmp/a.py'') [120, 32, 32, 32, 121, 10, 10, 122]
        (naive 63000000000000000)"
      and ts = "naive 63000000000000000" and e = "answering 63000000020000000"
      and st = empty_store and k = "py ''K1''"
      and new = "stored_row 1 (py ''a.py'') (py ''/tmp/a.py'') (py ''K1'') (py ''x y z'')
         63000000000000000 63000000020000000"]
    create_duplicate_or_insert
    [where p = "request_body (py ''a.py'') (py ''/tmp/a.py'') (py ''other'')
        (naive 63000000004000000)"
      and ts = "naive 63000000004000000" and e = "answering 63000000030000000"
      and st = "\<lparr>table = [stored_row 1 (py ''a.py'') (py ''/tmp/a.py'') (py ''K1'') (py ''x y z'')
         63000000000000000 63000000020000000], auto_increment = 2\<rparr>"
      and r = "stored_row 1 (py ''a.py'') (py ''/tmp/a.py'') (py ''K1'') (py ''x y z'')
         63000000000000000 63000000020000000"
      and k = "py ''K1''"
      and new = "stored_row 2 (py ''a.py'') (py ''/tmp/a.py'') (py ''K1'') (py ''other'')
         63000000004000000 63000000030000000"]
    create_duplicate_or_insert
    [where p = "request_body (py ''a.py'') (py ''/tmp/a.py'') [120, 32, 32, 32, 121, 10, 10, 122]
        (naive 63000000000000000)"
      and ts = "naive 63000000000000000"
      and e = "failing 63000000020000000 Refresh (py ''gone'')"
      and st = empty_store and k = "py ''K1''" and cause = "py ''gone''"
      and new = "stored_row 1 (py ''a.py'') (py ''/tmp/a.py'') (py ''K1'') (py ''x y z'')
         63000000000000000 63000000020000000"]
    create_duplicate_or_insert
    [where p = "request_body (py ''a.py'') (py ''/tmp/a.py'') (py ''x'') (naive 2000000)"
      and ts = "naive 2000000" and e = "answering 63000000020000000"
      and st = empty_store and k = "py ''K1''" and exc = OverflowError
      and new = "stored_row 1 (py ''a.py'') (py ''/tmp/a.py'') (py ''K1'') (py ''x'')
         2000000 63000000020000000"]
  show ?thesis by simp
qed

text \<open>
  The claim as stated fails when the store refuses the commit: the lookup finds no
  stored row, yet no row is inserted and the call is answered 500, not 201.
\<close>

theorem create_insert_counterexample:
  "find_duplicate (failing 63000000020000000 Commit (py ''gone'')) (SessionLocal empty_store)
     (py ''a.py'') (py ''/tmp/a.py'') (naive 63000000000000000) = Inr None \<and>
   create_tracked_file (failing 63000000020000000 Commit (py ''gone''))
     (request_body (py ''a.py'') (py ''/tmp/a.py'') (py ''x'') (naive 63000000000000000))
     (SessionLocal empty_store) (py ''K1'') =
   (Inl (HTTPException 500 (py ''Failed to save file: gone'')), SessionLocal empty_store)"
  by (simp add: eval_defs)

text \<open>
  C8, as amended. A fault of a round trip to the store during \<open>create_tracked_file\<close> is
  answered by the status 500 with the detail "Failed to save file: " followed by the text
  of the cause of that fault, after the session has been rolled back: nothing is
  pending. A fault of the query or of the commit leaves the store exactly as it was: the
  attempted insert leaves no row. A fault of the re-read after a commit that succeeded
  leaves the store with exactly the new row appended, in full. Conversely, every failure
  of the call is one of these three, with its cause in the detail and the store as
  said, or an \<open>OverflowError\<close> of the timestamp arithmetic, which leaves the store as it
  was.
\<close>

theorem create_failure_rolled_back:
  "(normalize_timestamp (req_timestamp p) = Inr ts \<and> window_representable ts \<and>
    fault e Query = Some cause \<longrightarrow>
      create_tracked_file e p (SessionLocal st) k =
        (Inl (HTTPException 500 (py ''Failed to save file: '' @ cause)), SessionLocal st)) \<and>
   (normalize_timestamp (req_timestamp p) = Inr ts \<and>
    find_duplicate e (SessionLocal st) (req_fileName p) (req_filePath p) ts = Inr None \<and>
    fault e Commit = Some cause \<longrightarrow>
      create_tracked_file e p (SessionLocal st) k =
        (Inl (HTTPException 500 (py ''Failed to save file: '' @ cause)), SessionLocal st)) \<and>
   (normalize_timestamp (req_timestamp p) = Inr ts \<and>
    find_duplicate e (SessionLocal st) (req_fileName p) (req_filePath p) ts = Inr None \<and>
    fault e Commit = None \<and> fault e Refresh = Some cause \<longrightarrow>
      create_tracked_file e p (SessionLocal st) k =
        (Inl (HTTPException 500 (py ''Failed to save file: '' @ cause)),
         SessionLocal
           \<lparr>table = table st @
              [\<lparr>row_id = auto_increment st, fileName = req_fileName p,
                filePath = req_filePath p, key = k,
                fullContent = compress_content (req_fullContent p), timestamp = ts,
                created_at = utcnow e\<rparr>],
            auto_increment = auto_increment st + 1\<rparr>)) \<and>
   (create_tracked_file e p (SessionLocal st) k = (Inl h, db') \<longrightarrow>
      pending db' = [] \<and>
      ((h = HTTPException 500 (py ''Failed to save file: '' @ str_exn OverflowError) \<and>
        db' = SessionLocal st \<and>
        (normalize_timestamp (req_timestamp p) = Inl OverflowError \<or>
         (\<exists>ts'. normalize_timestamp (req_timestamp p) = Inr ts' \<and>
            \<not> window_representable ts'))) \<or>
       (\<exists>ts' c. normalize_timestamp (req_timestamp p) = Inr ts' \<and> window_representable ts' \<and>
          fault e Query = Some c \<and>
          h = HTTPException 500 (py ''Failed to save file: '' @ c) \<and> db' = SessionLocal st) \<or>
       (\<exists>ts' c. normalize_timestamp (req_timestamp p) = Inr ts' \<and>
          find_duplicate e (SessionLocal st) (req_fileName p) (req_filePath p) ts' = Inr None \<and>
          fault e Commit = Some c \<and>
          h = HTTPException 500 (py ''Failed to save file: '' @ c) \<and> db' = SessionLocal st) \<or>
       (\<exists>ts' c. normalize_timestamp (req_timestamp p) = Inr ts' \<and>
          find_duplicate e (SessionLocal st) (req_fileName p) (req_filePath p) ts' = Inr None \<and>
          fault e Commit = None \<and> fault e Refresh = Some c \<and>
          h = HTTPException 500 (py ''Failed to save file: '' @ c) \<and>
          db' = SessionLocal
            \<lparr>table = table st @
               [\<lparr>row_id = auto_increment st, fileName = req_fileName p,
                 filePath = req_filePath p, key = k,
                 fullContent = compress_content (req_fullContent p), timestamp = ts',
                 created_at = utcnow e\<rparr>],
             auto_increment = auto_increment st + 1\<rparr>)))"
proof (intro conjI impI)
  assume "normalize_timestamp (req_timestamp p) = Inr ts \<and> window_representable ts \<and>
    fault e Query = Some cause"
  then show "create_tracked_file e p (SessionLocal st) k =
        (Inl (HTTPException 500 (py ''Failed to save file: '' @ cause)), SessionLocal st)"
    using create_lookup_failed [of p ts e "SessionLocal st" "DBAPIError cause" k]
      find_duplicate_fault [of ts e cause "SessionLocal st" "req_fileName p" "req_filePath p"]
    by (simp add: rollback_fresh)
next
  assume "normalize_timestamp (req_timestamp p) = Inr ts \<and>
    find_duplicate e (SessionLocal st) (req_fileName p) (req_filePath p) ts = Inr None \<and>
    fault e Commit = Some cause"
  then show "create_tracked_file e p (SessionLocal st) k =
        (Inl (HTTPException 500 (py ''Failed to save file: '' @ cause)), SessionLocal st)"
    by (simp add: create_commit_failed)
next
  assume "normalize_timestamp (req_timestamp p) = Inr ts \<and>
    find_duplicate e (SessionLocal st) (req_fileName p) (req_filePath p) ts = Inr None \<and>
    fault e Commit = None \<and> fault e Refresh = Some cause"
  then show "create_tracked_file e p (SessionLocal st) k =
        (Inl (HTTPException 500 (py ''Failed to save file: '' @ cause)),
         SessionLocal
           \<lparr>table = table st @
              [\<lparr>row_id = auto_increment st, fileName = req_fileName p,
                filePath = req_filePath p, key = k,
                fullContent = compress_content (req_fullContent p), timestamp = ts,
                created_at = utcnow e\<rparr>],
            auto_increment = auto_increment st + 1\<rparr>)"
    using create_refresh_failed [of p ts e st cause k]
    by (simp add: store_with_fields inserted_row_def)
next
  assume a: "create_tracked_file e p (SessionLocal st) k = (Inl h, db')"
  show "pending db' = []"
  proof (cases rule: create_cases [of p e st k])
    case (duplicate ts r)
    with a show ?thesis by simp
  next
    case (inserted ts)
    with a show ?thesis by simp
  qed (use a in \<open>auto simp: pending_SessionLocal\<close>)
next
  assume a: "create_tracked_file e p (SessionLocal st) k = (Inl h, db')"
  let ?overflow = "h = HTTPException 500 (py ''Failed to save file: '' @ str_exn OverflowError) \<and>
        db' = SessionLocal st \<and>
        (normalize_timestamp (req_timestamp p) = Inl OverflowError \<or>
         (\<exists>ts'. normalize_timestamp (req_timestamp p) = Inr ts' \<and>
            \<not> window_representable ts'))"
  let ?query = "\<exists>ts' c. normalize_timestamp (req_timestamp p) = Inr ts' \<and>
          window_representable ts' \<and> fault e Query = Some c \<and>
          h = HTTPException 500 (py ''Failed to save file: '' @ c) \<and> db' = SessionLocal st"
  let ?commit = "\<exists>ts' c. normalize_timestamp (req_timestamp p) = Inr ts' \<and>
          find_duplicate e (SessionLocal st) (req_fileName p) (req_filePath p) ts' = Inr None \<and>
          fault e Commit = Some c \<and>
          h = HTTPException 500 (py ''Failed to save file: '' @ c) \<and> db' = SessionLocal st"
  let ?refresh = "\<exists>ts' c. normalize_timestamp (req_timestamp p) = Inr ts' \<and>
          find_duplicate e (SessionLocal st) (req_fileName p) (req_filePath p) ts' = Inr None \<and>
          fault e Commit = None \<and> fault e Refresh = Some c \<and>
          h = HTTPException 500 (py ''Failed to save file: '' @ c) \<and>
          db' = SessionLocal
            \<lparr>table = table st @
               [\<lparr>row_id = auto_increment st, fileName = req_fileName p,
                 filePath = req_filePath p, key = k,
                 fullContent = compress_content (req_fullContent p), timestamp = ts',
                 created_at = utcnow e\<rparr>],
             auto_increment = auto_increment st + 1\<rparr>"
  show "?overflow \<or> ?query \<or> ?commit \<or> ?refresh"
  proof (cases rule: create_cases [of p e st k])
    case (normalize_failed exc)
    then have "exc = OverflowError"
      by (auto simp: normalize_timestamp_def add_timedelta_def Let_def
          split: option.splits if_splits)
    with normalize_failed a have ?overflow by simp
    then show ?thesis by blast
  next
    case (lookup_failed ts' exc)
    from find_duplicate_failed [OF lookup_failed(2)] show ?thesis
    proof
      assume "\<not> window_representable ts' \<and> exc = OverflowError"
      with lookup_failed a have ?overflow by auto
      then show ?thesis by blast
    next
      assume "window_representable ts' \<and>
        (\<exists>cause. fault e Query = Some cause \<and> exc = DBAPIError cause)"
      then obtain c where "window_representable ts'" "fault e Query = Some c"
        "exc = DBAPIError c"
        by blast
      with lookup_failed a have ?query by auto
      then show ?thesis by blast
    qed
  next
    case (duplicate ts' r)
    with a show ?thesis by simp
  next
    case (commit_failed ts' c)
    with a have ?commit by auto
    then show ?thesis by blast
  next
    case (refresh_failed ts' c)
    then have "create_tracked_file e p (SessionLocal st) k =
        (Inl (HTTPException 500 (py ''Failed to save file: '' @ c)),
         SessionLocal
           \<lparr>table = table st @
              [\<lparr>row_id = auto_increment st, fileName = req_fileName p,
                filePath = req_filePath p, key = k,
                fullContent = compress_content (req_fullContent p), timestamp = ts',
                created_at = utcnow e\<rparr>],
            auto_increment = auto_increment st + 1\<rparr>)"
      by (simp add: store_with_fields inserted_row_def)
    with refresh_failed(1-4) a have ?refresh by auto
    then show ?thesis by blast
  next
    case (inserted ts')
    with a show ?thesis by simp
  qed
qed

theorem create_failure_rolled_back_witness:
  "create_tracked_file (failing 63000000020000000 Query (py ''no connection''))
     (request_body (py ''a.py'') (py ''/tmp/a.py'') (py ''x'') (naive 63000000000000000))
     (SessionLocal \<lparr>table = [stored_row 1 (py ''b.py'') (py ''/tmp/b.py'') (py ''K1'') (py ''y'')
         63000000000000000 63000000010000000], auto_increment = 2\<rparr>) (py ''K1'') =
   (Inl (HTTPException 500 (py ''Failed to save file: no connection'')),
    SessionLocal \<lparr>table = [stored_row 1 (py ''b.py'') (py ''/tmp/b.py'') (py ''K1'') (py ''y'')
         63000000000000000 63000000010000000], auto_increment = 2\<rparr>) \<and>
   create_tracked_file (failing 63000000020000000 Commit (py ''disk full''))
     (request_body (py ''a.py'') (py ''/tmp/a.py'') (py ''x'') (naive 63000000000000000))
     (SessionLocal \<lparr>table = [stored_row 1 (py ''b.py'') (py ''/tmp/b.py'') (py ''K1'') (py ''y'')
         63000000000000000 63000000010000000], auto_increment = 2\<rparr>) (py ''K1'') =
   (Inl (HTTPException 500 (py ''Failed to save file: disk full'')),
    SessionLocal \<lparr>table = [stored_row 1 (py ''b.py'') (py ''/tmp/b.py'') (py ''K1'') (py ''y'')
         63000000000000000 63000000010000000], auto_increment = 2\<rparr>) \<and>
   create_tracked_file (failing 63000000020000000 Refresh (py ''timeout''))
     (request_body (py ''a.py'') (py ''/tmp/a.py'') (py ''x'') (naive 63000000000000000))
     (SessionLocal \<lparr>table = [stored_row 1 (py ''b.py'') (py ''/tmp/b.py'') (py ''K1'') (py ''y'')
         63000000000000000 63000000010000000], auto_increment = 2\<rparr>) (py ''K1'') =
   (Inl (HTTPException 500 (py ''Failed to save file: timeout'')),
    SessionLocal \<lparr>table =
       [stored_row 1 (py ''b.py'') (py ''/tmp/b.py'') (py ''K1'') (py ''y'')
          63000000000000000 63000000010000000,
        stored_row 2 (py ''a.py'') (py ''/tmp/a.py'') (py ''K1'') (py ''x'')
          63000000000000000 63000000020000000],
     auto_increment = 3\<rparr>)"
proof -
  have evaluated: ?thesis
    by (simp add: eval_defs window_representable_def)
  with create_failure_rolled_back
    [where e = "failing 63000000020000000 Query (py ''no connection'')"
      and p = "request_body (py ''a.py'') (py ''/tmp/a.py'') (py ''x'') (naive 63000000000000000)"
      and st = "\<lparr>table = [stored_row 1 (py ''b.py'') (py ''/tmp/b.py'') (py ''K1'') (py ''y'')
         63000000000000000 63000000010000000], auto_increment = 2\<rparr>"
      and k = "py ''K1''" and ts = "naive 63000000000000000" and cause = "py ''no connection''"]
    create_failure_rolled_back
    [where e = "failing 63000000020000000 Commit (py ''disk full'')"
      and p = "request_body (py ''a.py'') (py ''/tmp/a.py'') (py ''x'') (naive 63000000000000000)"
      and st = "\<lparr>table = [stored_row 1 (py ''b.py'') (py ''/tmp/b.py'') (py ''K1'') (py ''y'')
         63000000000000000 63000000010000000], auto_increment = 2\<rparr>"
      and k = "py ''K1''" and ts = "naive 63000000000000000" and cause = "py ''disk full''"]
    create_failure_rolled_back
    [where e = "failing 63000000020000000 Refresh (py ''timeout'')"
      and p = "request_body (py ''a.py'') (py ''/tmp/a.py'') (py ''x'') (naive 63000000000000000)"
      and st = "\<lparr>table = [stored_row 1 (py ''b.py'') (py ''/tmp/b.py'') (py ''K1'') (py ''y'')
         63000000000000000 63000000010000000], auto_increment = 2\<rparr>"
      and k = "py ''K1''" and ts = "naive 63000000000000000" and cause = "py ''timeout''"]
  show ?thesis by simp
qed

text \<open>
  The claim as stated fails when the commit succeeds and the re-read of the new row
  fails: the call is answered 500 "Failed to save file", the rollback has nothing to
  undo, and the row of the failed call stays in the store.
\<close>

theorem create_failure_row_remains_counterexample:
  "post_files (failing 63000000020000000 Refresh (py ''timeout'')) (Some (py ''K1''))
     (request_body (py ''a.py'') (py ''/tmp/a.py'') (py ''x'') (naive 63000000000000000))
     empty_store =
   (Raised (HTTPException 500 (py ''Failed to save file: timeout'')),
    \<lparr>table = [stored_row 1 (py ''a.py'') (py ''/tmp/a.py'') (py ''K1'') (py ''x'')
         63000000000000000 63000000020000000], auto_increment = 2\<rparr>)"
  by (simp add: eval_defs)

section \<open>Duplicates, contents and keys\<close>

lemma matches_within:
  "fileName r = name \<Longrightarrow> filePath r = path \<Longrightarrow>
   \<bar>micros ts - micros (timestamp r)\<bar> \<le> 5000000 \<Longrightarrow> matches_candidate name path ts r"
  by (auto simp: matches_candidate_def)

lemma find_duplicate_finds:
  assumes w: "window_representable ts" and q: "fault e Query = None"
    and r: "r \<in> set (table (committed db))" and m: "matches_candidate name path ts r"
  obtains r' where "find_duplicate e db name path ts = Inr (Some r')"
proof -
  let ?res = "first (order_by_desc (\<lambda>r. micros (timestamp r))
       (filter (matches_candidate name path ts) (table (committed db))))"
  have a: "find_duplicate e db name path ts = Inr ?res"
    using w q by (rule find_duplicate_answered)
  have "filter (matches_candidate name path ts) (table (committed db)) \<noteq> []"
    using r m by (auto simp: filter_empty_conv)
  then have "?res \<noteq> None" by (simp add: first_order_by_desc_None)
  then obtain r' where "?res = Some r'" by blast
  with a that show ?thesis by simp
qed

lemma inserted_row_fields:
  "fileName (inserted_row e st p k ts) = req_fileName p"
  "filePath (inserted_row e st p k ts) = req_filePath p"
  "key (inserted_row e st p k ts) = k"
  "fullContent (inserted_row e st p k ts) = compress_content (req_fullContent p)"
  "timestamp (inserted_row e st p k ts) = ts"
  "created_at (inserted_row e st p k ts) = utcnow e"
  "row_id (inserted_row e st p k ts) = auto_increment st"
  by (simp_all add: inserted_row_def)

text \<open>
  C3, as amended. When a first call has stored its snapshot (it was answered 201) and a
  second call names the same file and path with a normalized timestamp within five
  seconds of the first, has a representable window and has its query answered, the
  second call is answered 200 "File snapshot already stored" with a stored row of that
  file, whatever its content, and the store is left as it is: the content of the second
  call is not stored. Moreover the decision does not depend on the content: a call that
  is answered as a duplicate is answered in the same way, with the same store, for
  every other content.
\<close>

theorem duplicate_regardless_of_content:
  "(post_files e1 x1 p1 st = (Returned (JSONResponse 201 m1 d1), st1) \<and>
    req_fileName p2 = req_fileName p1 \<and> req_filePath p2 = req_filePath p1 \<and>
    normalize_timestamp (req_timestamp p1) = Inr t1 \<and>
    normalize_timestamp (req_timestamp p2) = Inr t2 \<and>
    \<bar>micros t2 - micros t1\<bar> \<le> 5000000 \<and> window_representable t2 \<and>
    fault e2 Query = None \<and> k2 \<noteq> [] \<longrightarrow>
      (\<exists>r\<in>set (table st1).
         fileName r = req_fileName p2 \<and> filePath r = req_filePath p2 \<and>
         post_files e2 (Some k2) p2 st1 =
           (Returned (JSONResponse 200 (py ''File snapshot already stored'') (model_validate r)),
            st1))) \<and>
   (post_files e x p st = (Returned (JSONResponse 200 m d), st') \<longrightarrow>
      post_files e x (p\<lparr>req_fullContent := c\<rparr>) st = (Returned (JSONResponse 200 m d), st'))"
proof (intro conjI impI)
  assume h: "post_files e1 x1 p1 st = (Returned (JSONResponse 201 m1 d1), st1) \<and>
    req_fileName p2 = req_fileName p1 \<and> req_filePath p2 = req_filePath p1 \<and>
    normalize_timestamp (req_timestamp p1) = Inr t1 \<and>
    normalize_timestamp (req_timestamp p2) = Inr t2 \<and>
    \<bar>micros t2 - micros t1\<bar> \<le> 5000000 \<and> window_representable t2 \<and>
    fault e2 Query = None \<and> k2 \<noteq> []"
  then obtain k1 db1 where k1: "x1 = Some k1" "k1 \<noteq> []"
    and c1: "create_tracked_file e1 p1 (SessionLocal st) k1 = (Inr (JSONResponse 201 m1 d1), db1)"
    and st1: "st1 = committed db1"
    using post_files_Returned [of e1 x1 p1 st "JSONResponse 201 m1 d1" st1] by blast
  have "db1 = SessionLocal (store_with st (inserted_row e1 st p1 k1 t1))"
  proof (cases rule: create_cases [of p1 e1 st k1])
    case (inserted ts)
    with c1 h show ?thesis by simp
  qed (use c1 in simp_all)
  then have t: "table st1 = table st @ [inserted_row e1 st p1 k1 t1]"
    using st1 by (simp add: committed_SessionLocal table_store_with)
  let ?r1 = "inserted_row e1 st p1 k1 t1"
  have in1: "?r1 \<in> set (table (committed (SessionLocal st1)))"
    using t by (simp add: committed_SessionLocal)
  have m1: "matches_candidate (req_fileName p2) (req_filePath p2) t2 ?r1"
    using h by (intro matches_within) (simp_all add: inserted_row_fields)
  obtain r where f: "find_duplicate e2 (SessionLocal st1) (req_fileName p2) (req_filePath p2) t2
      = Inr (Some r)"
    using find_duplicate_finds [of t2 e2 ?r1 "SessionLocal st1" "req_fileName p2" "req_filePath p2"]
      h in1 m1 by blast
  have r: "r \<in> set (table st1)" and mr: "matches_candidate (req_fileName p2) (req_filePath p2) t2 r"
    using find_duplicate_Some(1,2) [OF f] by (simp_all add: committed_SessionLocal)
  have "create_tracked_file e2 p2 (SessionLocal st1) k2 =
      (Inr (JSONResponse 200 (py ''File snapshot already stored'') (model_validate r)),
       SessionLocal st1)"
    using h f by (simp add: create_duplicate)
  then have "post_files e2 (Some k2) p2 st1 =
      (Returned (JSONResponse 200 (py ''File snapshot already stored'') (model_validate r)), st1)"
    using h post_files_with_key [of k2 e2 p2 st1 _ "SessionLocal st1"]
    by (simp add: committed_SessionLocal)
  with r mr show "\<exists>r\<in>set (table st1).
         fileName r = req_fileName p2 \<and> filePath r = req_filePath p2 \<and>
         post_files e2 (Some k2) p2 st1 =
           (Returned (JSONResponse 200 (py ''File snapshot already stored'') (model_validate r)),
            st1)"
    by (auto simp: matches_candidate_def)
next
  assume a: "post_files e x p st = (Returned (JSONResponse 200 m d), st')"
  then obtain k db' where k: "x = Some k" "k \<noteq> []"
    and c: "create_tracked_file e p (SessionLocal st) k = (Inr (JSONResponse 200 m d), db')"
    and st': "st' = committed db'"
    using post_files_Returned [of e x p st "JSONResponse 200 m d" st'] by blast
  let ?p = "p\<lparr>req_fullContent := c\<rparr>"
  show "post_files e x ?p st = (Returned (JSONResponse 200 m d), st')"
  proof (cases rule: create_cases [of p e st k])
    case (duplicate ts r)
    have "create_tracked_file e ?p (SessionLocal st) k =
        (Inr (JSONResponse 200 (py ''File snapshot already stored'') (model_validate r)),
         SessionLocal st)"
      using duplicate(1,2) by (intro create_duplicate [of ?p ts]) simp_all
    with duplicate(3) c have "create_tracked_file e ?p (SessionLocal st) k =
        (Inr (JSONResponse 200 m d), db')"
      by simp
    then show ?thesis
      using k st' post_files_with_key [of k e ?p st "JSONResponse 200 m d" db'] by simp
  qed (use c in simp_all)
qed


theorem duplicate_regardless_of_content_witness:
  "post_files (answering 63000000020000000) (Some (py ''K1''))
     (request_body (py ''a.py'') (py ''/tmp/a.py'') (py ''one'') (naive 63000000000000000))
     empty_store =
   (Returned (JSONResponse 201 (py ''File snapshot created'')
      (model_validate (stored_row 1 (py ''a.py'') (py ''/tmp/a.py'') (py ''K1'') (py ''one'')
         63000000000000000 63000000020000000))),
    \<lparr>table = [stored_row 1 (py ''a.py'') (py ''/tmp/a.py'') (py ''K1'') (py ''one'')
         63000000000000000 63000000020000000], auto_increment = 2\<rparr>) \<and>
   post_files (answering 63000000030000000) (Some (py ''K1''))
     (request_body (py ''a.py'') (py ''/tmp/a.py'') (py ''two'') (naive 63000000004000000))
     \<lparr>table = [stored_row 1 (py ''a.py'') (py ''/tmp/a.py'') (py ''K1'') (py ''one'')
         63000000000000000 63000000020000000], auto_increment = 2\<rparr> =
   (Returned (JSONResponse 200 (py ''File snapshot already stored'')
      (model_validate (stored_row 1 (py ''a.py'') (py ''/tmp/a.py'') (py ''K1'') (py ''one'')
         63000000000000000 63000000020000000))),
    \<lparr>table = [stored_row 1 (py ''a.py'') (py ''/tmp/a.py'') (py ''K1'') (py ''one'')
         63000000000000000 63000000020000000], auto_increment = 2\<rparr>) \<and>
   post_files (answering 63000000030000000) (Some (py ''K1''))
     (request_body (py ''a.py'') (py ''/tmp/a.py'') (py ''two'') (naive 63000000004000000)
        \<lparr>req_fullContent := py ''three''\<rparr>)
     \<lparr>table = [stored_row 1 (py ''a.py'') (py ''/tmp/a.py'') (py ''K1'') (py ''one'')
         63000000000000000 63000000020000000], auto_increment = 2\<rparr> =
   (Returned (JSONResponse 200 (py ''File snapshot already stored'')
      (model_validate (stored_row 1 (py ''a.py'') (py ''/tmp/a.py'') (py ''K1'') (py ''one'')
         63000000000000000 63000000020000000))),
    \<lparr>table = [stored_row 1 (py ''a.py'') (py ''/tmp/a.py'') (py ''K1'') (py ''one'')
         63000000000000000 63000000020000000], auto_increment = 2\<rparr>)"
  using duplicate_regardless_of_content
    [where ?e1.0 = "answering 63000000020000000" and ?x1.0 = "Some (py ''K1'')"
      and ?p1.0 = "request_body (py ''a.py'') (py ''/tmp/a.py'') (py ''one'')
        (naive 63000000000000000)"
      and st = empty_store and ?m1.0 = "py ''File snapshot created''"
      and ?d1.0 = "model_validate (stored_row 1 (py ''a.py'') (py ''/tmp/a.py'') (py ''K1'')
        (py ''one'') 63000000000000000 63000000020000000)"
      and ?st1.0 = "\<lparr>table = [stored_row 1 (py ''a.py'') (py ''/tmp/a.py'') (py ''K1'') (py ''one'')
         63000000000000000 63000000020000000], auto_increment = 2\<rparr>"
      and ?p2.0 = "request_body (py ''a.py'') (py ''/tmp/a.py'') (py ''two'')
        (naive 63000000004000000)"
      and ?t1.0 = "naive 63000000000000000" and ?t2.0 = "naive 63000000004000000"
      and ?e2.0 = "answering 63000000030000000" and ?k2.0 = "py ''K1''"]
    duplicate_regardless_of_content
    [where e = "answering 63000000030000000" and x = "Some (py ''K1'')"
      and p = "request_body (py ''a.py'') (py ''/tmp/a.py'') (py ''two'')
        (naive 63000000004000000)"
      and st = "\<lparr>table = [stored_row 1 (py ''a.py'') (py ''/tmp/a.py'') (py ''K1'') (py ''one'')
         63000000000000000 63000000020000000], auto_increment = 2\<rparr>"
      and m = "py ''File snapshot already stored''"
      and d = "model_validate (stored_row 1 (py ''a.py'') (py ''/tmp/a.py'') (py ''K1'')
        (py ''one'') 63000000000000000 63000000020000000)"
      and st' = "\<lparr>table = [stored_row 1 (py ''a.py'') (py ''/tmp/a.py'') (py ''K1'') (py ''one'')
         63000000000000000 63000000020000000], auto_increment = 2\<rparr>"
      and c = "py ''three''"]
  by (simp add: eval_defs window_representable_def)

text \<open>
  The claim as stated fails for a pair of calls of which the first is itself answered
  as a duplicate: with a row of the file stored at second 0, a call at second 5 is a
  duplicate of that row and stores nothing, and a call at second 10, five seconds after
  it and with another content, finds no row in its window and is stored.
\<close>

theorem duplicate_every_pair_counterexample:
  "post_files (answering 63000000020000000) (Some (py ''K1''))
     (request_body (py ''a.py'') (py ''/tmp/a.py'') (py ''zero'') (naive 63000000000000000))
     empty_store =
   (Returned (JSONResponse 201 (py ''File snapshot created'')
      (model_validate (stored_row 1 (py ''a.py'') (py ''/tmp/a.py'') (py ''K1'') (py ''zero'')
         63000000000000000 63000000020000000))),
    \<lparr>table = [stored_row 1 (py ''a.py'') (py ''/tmp/a.py'') (py ''K1'') (py ''zero'')
         63000000000000000 63000000020000000], auto_increment = 2\<rparr>) \<and>
   post_files (answering 63000000030000000) (Some (py ''K1''))
     (request_body (py ''a.py'') (py ''/tmp/a.py'') (py ''one'') (naive 63000000005000000))
     \<lparr>table = [stored_row 1 (py ''a.py'') (py ''/tmp/a.py'') (py ''K1'') (py ''zero'')
         63000000000000000 63000000020000000], auto_increment = 2\<rparr> =
   (Returned (JSONResponse 200 (py ''File snapshot already stored'')
      (model_validate (stored_row 1 (py ''a.py'') (py ''/tmp/a.py'') (py ''K1'') (py ''zero'')
         63000000000000000 63000000020000000))),
    \<lparr>table = [stored_row 1 (py ''a.py'') (py ''/tmp/a.py'') (py ''K1'') (py ''zero'')
         63000000000000000 63000000020000000], auto_increment = 2\<rparr>) \<and>
   post_files (answering 63000000040000000) (Some (py ''K1''))
     (request_body (py ''a.py'') (py ''/tmp/a.py'') (py ''two'') (naive 63000000010000000))
     \<lparr>table = [stored_row 1 (py ''a.py'') (py ''/tmp/a.py'') (py ''K1'') (py ''zero'')
         63000000000000000 63000000020000000], auto_increment = 2\<rparr> =
   (Returned (JSONResponse 201 (py ''File snapshot created'')
      (model_validate (stored_row 2 (py ''a.py'') (py ''/tmp/a.py'') (py ''K1'') (py ''two'')
         63000000010000000 63000000040000000))),
    \<lparr>table = [stored_row 1 (py ''a.py'') (py ''/tmp/a.py'') (py ''K1'') (py ''zero'')
         63000000000000000 63000000020000000,
       stored_row 2 (py ''a.py'') (py ''/tmp/a.py'') (py ''K1'') (py ''two'')
         63000000010000000 63000000040000000], auto_increment = 3\<rparr>)"
  by (simp add: eval_defs)

lemma get_files_with_key:
  "k \<noteq> [] \<Longrightarrow> get_files e (Some k) st =
     (case list_tracked_files e (SessionLocal st) k of
        Inl exc \<Rightarrow> (Unhandled exc, st) | Inr body \<Rightarrow> (Returned body, st))"
  by (simp add: get_files_def require_api_key_def db_close_def SessionLocal_def
      split: sum.splits)

lemma get_files_store: "snd (get_files e x st) = st"
  by (auto simp: get_files_def require_api_key_def db_close_def SessionLocal_def Let_def
      split: option.splits sum.splits)

lemma duplicate_any_key:
  assumes a: "post_files e (Some k) p st = (Returned (JSONResponse 200 m d), st')"
    and k': "k' \<noteq> []"
  shows "post_files e (Some k') p st = (Returned (JSONResponse 200 m d), st')"
proof -
  obtain k0 db' where k: "Some k = Some k0" "k0 \<noteq> []"
    and c: "create_tracked_file e p (SessionLocal st) k0 = (Inr (JSONResponse 200 m d), db')"
    and st': "st' = committed db'"
    using post_files_Returned [OF a] by blast
  show ?thesis
  proof (cases rule: create_cases [of p e st k0])
    case (duplicate ts r)
    have "create_tracked_file e p (SessionLocal st) k' =
        (Inr (JSONResponse 200 (py ''File snapshot already stored'') (model_validate r)),
         SessionLocal st)"
      using duplicate(1,2) by (rule create_duplicate)
    with duplicate(3) c have "create_tracked_file e p (SessionLocal st) k' =
        (Inr (JSONResponse 200 m d), db')"
      by simp
    then show ?thesis
      using st' post_files_with_key [OF k', of e p st "JSONResponse 200 m d" db'] by simp
  qed (use c in simp_all)
qed

text \<open>
  C10. The lookup is not given the key of the caller: a call that is answered as a
  duplicate is answered in the same way, with the same store, under every other key.
  From the empty store, whenever a first caller with key \<open>k1\<close> creates a snapshot
  and a second caller with another key \<open>k2\<close> sends the same file name and path with
  a timestamp within five seconds (windows representable, store answering), the second
  caller is answered 200 "File snapshot already stored" with the row stored under
  \<open>k1\<close>, content included; the store still holds that row only, no row has the key
  \<open>k2\<close>, and the listing for \<open>k2\<close> is empty.
\<close>

theorem duplicate_across_api_keys:
  "(k1 \<noteq> [] \<and> k2 \<noteq> [] \<and> k1 \<noteq> k2 \<and>
   req_fileName p2 = req_fileName p1 \<and> req_filePath p2 = req_filePath p1 \<and>
   normalize_timestamp (req_timestamp p1) = Inr t1 \<and>
   normalize_timestamp (req_timestamp p2) = Inr t2 \<and>
   window_representable t1 \<and> window_representable t2 \<and>
   \<bar>micros t2 - micros t1\<bar> \<le> 5000000 \<and>
   fault e1 Query = None \<and> fault e1 Commit = None \<and> fault e1 Refresh = None \<and>
   fault e2 Query = None \<and>
   first_row = inserted_row e1 empty_store p1 k1 t1 \<longrightarrow>
     post_files e1 (Some k1) p1 empty_store =
       (Returned (JSONResponse 201 (py ''File snapshot created'') (model_validate first_row)),
        store_with empty_store first_row) \<and>
     post_files e2 (Some k2) p2 (store_with empty_store first_row) =
       (Returned (JSONResponse 200 (py ''File snapshot already stored'')
          (model_validate first_row)),
        store_with empty_store first_row) \<and>
     table (store_with empty_store first_row) = [first_row] \<and>
     key first_row = k1 \<and>
     resp_fullContent (model_validate first_row) = compress_content (req_fullContent p1) \<and>
     (\<forall>r\<in>set (table (store_with empty_store first_row)). key r \<noteq> k2) \<and>
     get_files e2 (Some k2) (store_with empty_store first_row) =
       (Returned (py ''0 file snapshots found'', []), store_with empty_store first_row)) \<and>
   (post_files e (Some k) p st = (Returned (JSONResponse 200 m d), st') \<and> k' \<noteq> [] \<longrightarrow>
      post_files e (Some k') p st = (Returned (JSONResponse 200 m d), st'))"
proof (rule conjI)
  show "k1 \<noteq> [] \<and> k2 \<noteq> [] \<and> k1 \<noteq> k2 \<and>
   req_fileName p2 = req_fileName p1 \<and> req_filePath p2 = req_filePath p1 \<and>
   normalize_timestamp (req_timestamp p1) = Inr t1 \<and>
   normalize_timestamp (req_timestamp p2) = Inr t2 \<and>
   window_representable t1 \<and> window_representable t2 \<and>
   \<bar>micros t2 - micros t1\<bar> \<le> 5000000 \<and>
   fault e1 Query = None \<and> fault e1 Commit = None \<and> fault e1 Refresh = None \<and>
   fault e2 Query = None \<and>
   first_row = inserted_row e1 empty_store p1 k1 t1 \<longrightarrow>
     post_files e1 (Some k1) p1 empty_store =
       (Returned (JSONResponse 201 (py ''File snapshot created'') (model_validate first_row)),
        store_with empty_store first_row) \<and>
     post_files e2 (Some k2) p2 (store_with empty_store first_row) =
       (Returned (JSONResponse 200 (py ''File snapshot already stored'')
          (model_validate first_row)),
        store_with empty_store first_row) \<and>
     table (store_with empty_store first_row) = [first_row] \<and>
     key first_row = k1 \<and>
     resp_fullContent (model_validate first_row) = compress_content (req_fullContent p1) \<and>
     (\<forall>r\<in>set (table (store_with empty_store first_row)). key r \<noteq> k2) \<and>
     get_files e2 (Some k2) (store_with empty_store first_row) =
       (Returned (py ''0 file snapshots found'', []), store_with empty_store first_row)"
  proof
    assume h: "k1 \<noteq> [] \<and> k2 \<noteq> [] \<and> k1 \<noteq> k2 \<and>
     req_fileName p2 = req_fileName p1 \<and> req_filePath p2 = req_filePath p1 \<and>
     normalize_timestamp (req_timestamp p1) = Inr t1 \<and>
     normalize_timestamp (req_timestamp p2) = Inr t2 \<and>
     window_representable t1 \<and> window_representable t2 \<and>
     \<bar>micros t2 - micros t1\<bar> \<le> 5000000 \<and>
     fault e1 Query = None \<and> fault e1 Commit = None \<and> fault e1 Refresh = None \<and>
     fault e2 Query = None \<and>
     first_row = inserted_row e1 empty_store p1 k1 t1"
    let ?st1 = "store_with empty_store first_row"
    from h have q2: "fault e2 Query = None" and w2: "window_representable t2"
      and k2: "k2 \<noteq> []" and n2: "normalize_timestamp (req_timestamp p2) = Inr t2"
      and kk: "k1 \<noteq> k2"
      by simp_all
    have t: "table ?st1 = [first_row]"
      by (simp add: table_store_with empty_store_def)
    have "find_duplicate e1 (SessionLocal empty_store) (req_fileName p1) (req_filePath p1) t1 =
        Inr None"
      using h by (simp add: find_duplicate_answered committed_SessionLocal empty_store_def
          order_by_desc_def first_def)
    then have "create_tracked_file e1 p1 (SessionLocal empty_store) k1 =
        (Inr (JSONResponse 201 (py ''File snapshot created'') (model_validate first_row)),
         SessionLocal ?st1)"
      using h create_inserted [of p1 t1 e1 empty_store k1] by simp
    then have a: "post_files e1 (Some k1) p1 empty_store =
         (Returned (JSONResponse 201 (py ''File snapshot created'') (model_validate first_row)),
          ?st1)"
      using h post_files_with_key [of k1 e1 p1 empty_store _ "SessionLocal ?st1"]
      by (simp add: committed_SessionLocal)
    have m: "matches_candidate (req_fileName p2) (req_filePath p2) t2 first_row"
      using h by (intro matches_within) (simp_all add: inserted_row_fields)
    have "find_duplicate e2 (SessionLocal ?st1) (req_fileName p2) (req_filePath p2) t2 =
        Inr (Some first_row)"
      by (simp add: find_duplicate_answered [OF w2 q2] committed_SessionLocal t m
          order_by_desc_def first_def)
    then have "create_tracked_file e2 p2 (SessionLocal ?st1) k2 =
        (Inr (JSONResponse 200 (py ''File snapshot already stored'') (model_validate first_row)),
         SessionLocal ?st1)"
      by (rule create_duplicate [OF n2])
    then have b: "post_files e2 (Some k2) p2 ?st1 =
         (Returned (JSONResponse 200 (py ''File snapshot already stored'')
            (model_validate first_row)), ?st1)"
      using post_files_with_key [OF k2, of e2 p2 ?st1 _ "SessionLocal ?st1"]
      by (simp add: committed_SessionLocal)
    have k: "key first_row = k1" using h by (simp add: inserted_row_fields)
    have c: "resp_fullContent (model_validate first_row) = compress_content (req_fullContent p1)"
      using h by (simp add: model_validate_def inserted_row_fields)
    have n: "\<forall>r\<in>set (table ?st1). key r \<noteq> k2" using kk k by (simp add: t)
    have "list_tracked_files e2 (SessionLocal ?st1) k2 = Inr (py ''0 file snapshots found'', [])"
      using kk k by (simp add: list_tracked_files_answered [OF q2] committed_SessionLocal t
          order_by_desc_def py_def)
    then have g: "get_files e2 (Some k2) ?st1 =
        (Returned (py ''0 file snapshots found'', []), ?st1)"
      by (simp add: get_files_with_key [OF k2])
    from a b t k c n g show "post_files e1 (Some k1) p1 empty_store =
         (Returned (JSONResponse 201 (py ''File snapshot created'') (model_validate first_row)),
          store_with empty_store first_row) \<and>
       post_files e2 (Some k2) p2 (store_with empty_store first_row) =
         (Returned (JSONResponse 200 (py ''File snapshot already stored'')
            (model_validate first_row)),
          store_with empty_store first_row) \<and>
       table (store_with empty_store first_row) = [first_row] \<and>
       key first_row = k1 \<and>
       resp_fullContent (model_validate first_row) = compress_content (req_fullContent p1) \<and>
       (\<forall>r\<in>set (table (store_with empty_store first_row)). key r \<noteq> k2) \<and>
       get_files e2 (Some k2) (store_with empty_store first_row) =
         (Returned (py ''0 file snapshots found'', []), store_with empty_store first_row)"
      by (intro conjI)
  qed
next
  show "post_files e (Some k) p st = (Returned (JSONResponse 200 m d), st') \<and> k' \<noteq> [] \<longrightarrow>
      post_files e (Some k') p st = (Returned (JSONResponse 200 m d), st')"
    using duplicate_any_key [of e k p st m d st' k'] by blast
qed

theorem duplicate_across_api_keys_witness:
  "post_files (answering 63000000020000000) (Some (py ''K1''))
     (request_body (py ''a.py'') (py ''/tmp/a.py'') (py ''text of K1'') (naive 63000000000000000))
     empty_store =
   (Returned (JSONResponse 201 (py ''File snapshot created'')
      (model_validate (stored_row 1 (py ''a.py'') (py ''/tmp/a.py'') (py ''K1'') (py ''text of K1'')
         63000000000000000 63000000020000000))),
    \<lparr>table = [stored_row 1 (py ''a.py'') (py ''/tmp/a.py'') (py ''K1'') (py ''text of K1'')
         63000000000000000 63000000020000000], auto_increment = 2\<rparr>) \<and>
   post_files (answering 63000000030000000) (Some (py ''K2''))
     (request_body (py ''a.py'') (py ''/tmp/a.py'') (py ''text of K2'') (naive 63000000003000000))
     \<lparr>table = [stored_row 1 (py ''a.py'') (py ''/tmp/a.py'') (py ''K1'') (py ''text of K1'')
         63000000000000000 63000000020000000], auto_increment = 2\<rparr> =
   (Returned (JSONResponse 200 (py ''File snapshot already stored'')
      (model_validate (stored_row 1 (py ''a.py'') (py ''/tmp/a.py'') (py ''K1'') (py ''text of K1'')
         63000000000000000 63000000020000000))),
    \<lparr>table = [stored_row 1 (py ''a.py'') (py ''/tmp/a.py'') (py ''K1'') (py ''text of K1'')
         63000000000000000 63000000020000000], auto_increment = 2\<rparr>) \<and>
   get_files (answering 63000000030000000) (Some (py ''K2''))
     \<lparr>table = [stored_row 1 (py ''a.py'') (py ''/tmp/a.py'') (py ''K1'') (py ''text of K1'')
         63000000000000000 63000000020000000], auto_increment = 2\<rparr> =
   (Returned (py ''0 file snapshots found'', []),
    \<lparr>table = [stored_row 1 (py ''a.py'') (py ''/tmp/a.py'') (py ''K1'') (py ''text of K1'')
         63000000000000000 63000000020000000], auto_increment = 2\<rparr>)"
  using duplicate_across_api_keys
    [where ?k1.0 = "py ''K1''" and ?k2.0 = "py ''K2''"
      and ?p1.0 = "request_body (py ''a.py'') (py ''/tmp/a.py'') (py ''text of K1'')
        (naive 63000000000000000)"
      and ?p2.0 = "request_body (py ''a.py'') (py ''/tmp/a.py'') (py ''text of K2'')
        (naive 63000000003000000)"
      and ?t1.0 = "naive 63000000000000000" and ?t2.0 = "naive 63000000003000000"
      and ?e1.0 = "answering 63000000020000000" and ?e2.0 = "answering 63000000030000000"
      and first_row = "stored_row 1 (py ''a.py'') (py ''/tmp/a.py'') (py ''K1'') (py ''text of K1'')
         63000000000000000 63000000020000000"]
  by (simp add: eval_defs window_representable_def)

section \<open>What the store holds\<close>

lemma written_by_inserted_row:
  "normalize_timestamp (req_timestamp p) = Inr ts \<Longrightarrow> written_by p k (inserted_row e st p k ts)"
  by (simp add: written_by_def inserted_row_fields)

lemma post_files_table:
  "\<exists>rows. table (snd (post_files e x p st)) = table st @ rows \<and>
     (\<forall>r\<in>set rows. \<exists>k. x = Some k \<and> written_by p k r)"
proof (cases "x = None \<or> x = Some []")
  case True
  then have "table (snd (post_files e x p st)) = table st @ []"
    by (simp add: post_files_without_key)
  then show ?thesis by (intro exI [of _ "[]"]) simp
next
  case False
  then obtain k where k: "x = Some k" "k \<noteq> []" by (cases x) auto
  have unchanged: "\<exists>rows. table (snd (post_files e x p st)) = table st @ rows \<and>
      (\<forall>r\<in>set rows. \<exists>k. x = Some k \<and> written_by p k r)"
    if "snd (post_files e x p st) = st"
    using that by (intro exI [of _ "[]"]) simp
  have added: "\<exists>rows. table (snd (post_files e x p st)) = table st @ rows \<and>
      (\<forall>r\<in>set rows. \<exists>k. x = Some k \<and> written_by p k r)"
    if "snd (post_files e x p st) = store_with st (inserted_row e st p k ts)"
      and "normalize_timestamp (req_timestamp p) = Inr ts" for ts
    using that k written_by_inserted_row [of p ts k e st]
    by (intro exI [of _ "[inserted_row e st p k ts]"]) (simp add: table_store_with)
  show ?thesis
  proof (cases rule: create_cases [of p e st k])
    case (normalize_failed exc)
    then show ?thesis
      using k unchanged post_files_with_key_failed [of k e p st _ "SessionLocal st"]
      by (simp add: committed_SessionLocal)
  next
    case (lookup_failed ts exc)
    then show ?thesis
      using k unchanged post_files_with_key_failed [of k e p st _ "SessionLocal st"]
      by (simp add: committed_SessionLocal)
  next
    case (duplicate ts r)
    then show ?thesis
      using k unchanged post_files_with_key [of k e p st _ "SessionLocal st"]
      by (simp add: committed_SessionLocal)
  next
    case (commit_failed ts cause)
    then show ?thesis
      using k unchanged post_files_with_key_failed [of k e p st _ "SessionLocal st"]
      by (simp add: committed_SessionLocal)
  next
    case (refresh_failed ts cause)
    then show ?thesis
      using k added [of ts] post_files_with_key_failed
        [of k e p st _ "SessionLocal (store_with st (inserted_row e st p k ts))"]
      by (simp add: committed_SessionLocal)
  next
    case (inserted ts)
    then show ?thesis
      using k added [of ts] post_files_with_key
        [of k e p st _ "SessionLocal (store_with st (inserted_row e st p k ts))"]
      by (simp add: committed_SessionLocal)
  qed
qed

lemma serve_table:
  "\<exists>rows. table (serve rq st) = table st @ rows \<and>
     (\<forall>r\<in>set rows. \<exists>e k p. rq = Post e (Some k) p \<and> written_by p k r)"
proof (cases rq)
  case (Post e x p)
  obtain rows where "table (snd (post_files e x p st)) = table st @ rows"
    and "\<forall>r\<in>set rows. \<exists>k. x = Some k \<and> written_by p k r"
    using post_files_table [of e x p st] by blast
  with Post show ?thesis by (intro exI [of _ rows]) auto
next
  case (Get e x)
  then show ?thesis by (intro exI [of _ "[]"]) (simp add: get_files_store)
qed

lemma serve_all_table:
  "\<exists>rows. table (serve_all reqs st) = table st @ rows \<and>
     (\<forall>r\<in>set rows. \<exists>e k p. Post e (Some k) p \<in> set reqs \<and> written_by p k r)"
proof (induction reqs arbitrary: st)
  case Nil
  show ?case by simp
next
  case (Cons rq reqs)
  obtain rows1 where 1: "table (serve rq st) = table st @ rows1"
    "\<forall>r\<in>set rows1. \<exists>e k p. rq = Post e (Some k) p \<and> written_by p k r"
    using serve_table [of rq st] by blast
  obtain rows2 where 2: "table (serve_all reqs (serve rq st)) = table (serve rq st) @ rows2"
    "\<forall>r\<in>set rows2. \<exists>e k p. Post e (Some k) p \<in> set reqs \<and> written_by p k r"
    using Cons.IH [of "serve rq st"] by blast
  have "table (serve_all (rq # reqs) st) = table st @ (rows1 @ rows2)"
    using 1(1) 2(1) by simp
  moreover have "\<forall>r\<in>set (rows1 @ rows2).
      \<exists>e k p. Post e (Some k) p \<in> set (rq # reqs) \<and> written_by p k r"
    using 1(2) 2(2) by fastforce
  ultimately show ?case by blast
qed

lemma written_by_normal:
  assumes "written_by p k r"
  shows "tzinfo (timestamp r) = None" and "\<not> adjacent_ws (fullContent r)"
    and "fullContent r \<noteq> [] \<Longrightarrow> \<not> is_space (hd (fullContent r))"
    and "fullContent r \<noteq> [] \<Longrightarrow> \<not> is_space (last (fullContent r))"
    and "compress_content (fullContent r) = fullContent r"
proof -
  have c: "fullContent r = compress_content (req_fullContent p)"
    and n: "normalize_timestamp (req_timestamp p) = Inr (timestamp r)"
    using assms by (simp_all add: written_by_def)
  show "tzinfo (timestamp r) = None" using n by (rule normalize_result_naive)
  show "\<not> adjacent_ws (fullContent r)"
    unfolding c compress_content_def by (rule no_adjacent_strip) (rule no_adjacent_re_sub_ws)
  show "fullContent r \<noteq> [] \<Longrightarrow> \<not> is_space (hd (fullContent r))"
    unfolding c compress_content_def by (rule hd_strip)
  show "fullContent r \<noteq> [] \<Longrightarrow> \<not> is_space (last (fullContent r))"
    unfolding c compress_content_def by (rule last_strip)
  show "compress_content (fullContent r) = fullContent r"
    unfolding c by (rule compress_content_idem)
qed

text \<open>
  C6. Whatever requests are served from whatever store, the table only grows at its end:
  the rows already stored stay as they are. Every row added was written by one of the
  \<open>POST\<close> requests: its content is \<open>compress_content\<close> of the content sent, its
  timestamp the normalized timestamp sent. So its timestamp is naive, and its content
  has no two adjacent whitespace characters, neither starts nor ends with whitespace,
  and is a fixed point of \<open>compress_content\<close>.
\<close>

theorem stored_rows_normalized:
  "\<exists>rows. table (serve_all reqs st) = table st @ rows \<and>
     (\<forall>r\<in>set rows.
        (\<exists>e k p. Post e (Some k) p \<in> set reqs \<and> written_by p k r) \<and>
        tzinfo (timestamp r) = None \<and>
        \<not> adjacent_ws (fullContent r) \<and>
        (fullContent r \<noteq> [] \<longrightarrow>
           \<not> is_space (hd (fullContent r)) \<and> \<not> is_space (last (fullContent r))) \<and>
        compress_content (fullContent r) = fullContent r)"
proof -
  obtain rows where t: "table (serve_all reqs st) = table st @ rows"
    and w: "\<forall>r\<in>set rows. \<exists>e k p. Post e (Some k) p \<in> set reqs \<and> written_by p k r"
    using serve_all_table [of reqs st] by blast
  have "\<forall>r\<in>set rows.
        (\<exists>e k p. Post e (Some k) p \<in> set reqs \<and> written_by p k r) \<and>
        tzinfo (timestamp r) = None \<and>
        \<not> adjacent_ws (fullContent r) \<and>
        (fullContent r \<noteq> [] \<longrightarrow>
           \<not> is_space (hd (fullContent r)) \<and> \<not> is_space (last (fullContent r))) \<and>
        compress_content (fullContent r) = fullContent r"
  proof
    fix r assume "r \<in> set rows"
    with w obtain e k p where p: "Post e (Some k) p \<in> set reqs" and wb: "written_by p k r"
      by blast
    from p wb written_by_normal [OF wb]
    show "(\<exists>e k p. Post e (Some k) p \<in> set reqs \<and> written_by p k r) \<and>
        tzinfo (timestamp r) = None \<and>
        \<not> adjacent_ws (fullContent r) \<and>
        (fullContent r \<noteq> [] \<longrightarrow>
           \<not> is_space (hd (fullContent r)) \<and> \<not> is_space (last (fullContent r))) \<and>
        compress_content (fullContent r) = fullContent r"
      by blast
  qed
  with t show ?thesis by blast
qed

theorem stored_rows_normalized_witness:
  "table (serve_all
     [Post (answering 63000000020000000) (Some (py ''K1''))
        (request_body (py ''a.py'') (py ''/tmp/a.py'') [9, 120, 32, 32, 32, 121, 10, 10, 122, 13]
           \<lparr>micros = 63000000000000000, tzinfo = Some 3600000000\<rparr>),
      Get (answering 63000000021000000) (Some (py ''K1'')),
      Post (answering 63000000030000000) None
        (request_body (py ''b.py'') (py ''/tmp/b.py'') (py ''no key'') (naive 63000000025000000)),
      Post (answering 63000000040000000) (Some (py ''K2''))
        (request_body (py ''a.py'') (py ''/tmp/a.py'') (py '' later   text '')
           (naive 63000000030000000))]
     empty_store) =
   [stored_row 1 (py ''a.py'') (py ''/tmp/a.py'') (py ''K1'') (py ''x y z'')
      62999996400000000 63000000020000000,
    stored_row 2 (py ''a.py'') (py ''/tmp/a.py'') (py ''K2'') (py ''later text'')
      63000000030000000 63000000040000000] \<and>
   written_by
     (request_body (py ''a.py'') (py ''/tmp/a.py'') [9, 120, 32, 32, 32, 121, 10, 10, 122, 13]
        \<lparr>micros = 63000000000000000, tzinfo = Some 3600000000\<rparr>)
     (py ''K1'')
     (stored_row 1 (py ''a.py'') (py ''/tmp/a.py'') (py ''K1'') (py ''x y z'')
        62999996400000000 63000000020000000)"
  using stored_rows_normalized
    [of "[Post (answering 63000000020000000) (Some (py ''K1''))
        (request_body (py ''a.py'') (py ''/tmp/a.py'') [9, 120, 32, 32, 32, 121, 10, 10, 122, 13]
           \<lparr>micros = 63000000000000000, tzinfo = Some 3600000000\<rparr>),
      Get (answering 63000000021000000) (Some (py ''K1'')),
      Post (answering 63000000030000000) None
        (request_body (py ''b.py'') (py ''/tmp/b.py'') (py ''no key'') (naive 63000000025000000)),
      Post (answering 63000000040000000) (Some (py ''K2''))
        (request_body (py ''a.py'') (py ''/tmp/a.py'') (py '' later   text '')
           (naive 63000000030000000))]"
      empty_store]
  by (simp add: eval_defs written_by_def)

end
